theory Spec2Isabelle
  imports Main "HOL-Library.Sublist" "HOL-Library.Word"
begin

section \<open>JavaScript values and string primitives\<close>

text \<open>
  JavaScript strings are modelled as \<^typ>\<open>string\<close>: a list of code units, here the
  code units \<open>0..255\<close>. Every character the code below inspects is ASCII.

  The utilities are typed \<^verbatim>\<open>string\<close> in TypeScript but guard against other values at run
  time with \<^verbatim>\<open>!x || typeof x !== 'string'\<close>. That guard is true for every value that is not a
  string, whatever its truthiness, so one constructor stands for all of them.
\<close>

datatype jsval = Str string | NonString

text \<open>\<^verbatim>\<open>s.includes(sub)\<close>: a contiguous occurrence of \<open>sub\<close> in \<open>s\<close>.\<close>

fun str_includes :: "string \<Rightarrow> string \<Rightarrow> bool" where
  "str_includes [] sub = (sub = [])"
| "str_includes (c # cs) sub = (prefix sub (c # cs) \<or> str_includes cs sub)"

text \<open>\<^verbatim>\<open>s.startsWith(p)\<close> and \<^verbatim>\<open>s.endsWith(p)\<close>.\<close>

definition startsWith :: "string \<Rightarrow> string \<Rightarrow> bool" where
  "startsWith s p = prefix p s"

definition endsWith :: "string \<Rightarrow> string \<Rightarrow> bool" where
  "endsWith s p = prefix (rev p) (rev s)"

text \<open>\<^verbatim>\<open>s.substring(1)\<close> and \<^verbatim>\<open>s.slice(1)\<close>: everything after the first code unit.\<close>

definition substring1 :: "string \<Rightarrow> string" where
  "substring1 s = drop 1 s"

text \<open>
  \<^verbatim>\<open>s.toLowerCase()\<close> on code units below 256: the ASCII capitals and the Latin-1 capitals
  (\<open>0xC0..0xDE\<close> without the multiplication sign \<open>0xD7\<close>) move up by 32.
\<close>

definition lower_char :: "char \<Rightarrow> char" where
  "lower_char c =
     (let n = (of_char c :: nat)
      in if (65 \<le> n \<and> n \<le> 90) \<or> (192 \<le> n \<and> n \<le> 222 \<and> n \<noteq> 215)
         then char_of (n + 32) else c)"

definition toLowerCase :: "string \<Rightarrow> string" where
  "toLowerCase s = map lower_char s"

text \<open>\<^verbatim>\<open>s.split(sep)\<close> for a separator of one code unit; never the empty list.\<close>

fun split :: "char \<Rightarrow> string \<Rightarrow> string list" where
  "split sep [] = [[]]"
| "split sep (c # cs) =
     (if c = sep then [] # split sep cs
      else (case split sep cs of [] \<Rightarrow> [[c]] | w # ws \<Rightarrow> (c # w) # ws))"

section \<open>Regular expressions\<close>

text \<open>
  The two regular expressions of the utilities use character classes, concatenation,
  alternation, option and repetition only, and the code asks only whether they match
  (\<^verbatim>\<open>test\<close>), so matching is membership in a regular language, decided here with
  derivatives.
\<close>

datatype rexp =
    Nul
  | Eps
  | Class "(char \<times> char) list"
  | AnyChar
  | Seq rexp rexp
  | Alt rexp rexp
  | Star rexp

text \<open>
  A character class is a list of ranges, as between the brackets of the source:
  \<^verbatim>\<open>[a-z0-9-]\<close> is \<open>[(a, z), (0, 9), (-, -)]\<close>.
\<close>

definition in_range :: "char \<times> char \<Rightarrow> char \<Rightarrow> bool" where
  "in_range r c = ((of_char (fst r) :: nat) \<le> of_char c \<and> (of_char c :: nat) \<le> of_char (snd r))"

definition in_class :: "(char \<times> char) list \<Rightarrow> char \<Rightarrow> bool" where
  "in_class rs c = list_ex (\<lambda>r. in_range r c) rs"

fun nullable :: "rexp \<Rightarrow> bool" where
  "nullable Nul = False"
| "nullable Eps = True"
| "nullable (Class rs) = False"
| "nullable AnyChar = False"
| "nullable (Seq r s) = (nullable r \<and> nullable s)"
| "nullable (Alt r s) = (nullable r \<or> nullable s)"
| "nullable (Star r) = True"

definition seq :: "rexp \<Rightarrow> rexp \<Rightarrow> rexp" where
  "seq r s = (if r = Nul \<or> s = Nul then Nul else if r = Eps then s else Seq r s)"

definition alt :: "rexp \<Rightarrow> rexp \<Rightarrow> rexp" where
  "alt r s = (if r = Nul then s else if s = Nul then r else if r = s then r else Alt r s)"

fun deriv :: "char \<Rightarrow> rexp \<Rightarrow> rexp" where
  "deriv c Nul = Nul"
| "deriv c Eps = Nul"
| "deriv c (Class rs) = (if in_class rs c then Eps else Nul)"
| "deriv c AnyChar = Eps"
| "deriv c (Seq r s) =
     (if nullable r then alt (seq (deriv c r) s) (deriv c s) else seq (deriv c r) s)"
| "deriv c (Alt r s) = alt (deriv c r) (deriv c s)"
| "deriv c (Star r) = seq (deriv c r) (Star r)"

text \<open>The whole string belongs to the language: the pattern between \<^verbatim>\<open>^\<close> and \<^verbatim>\<open>$\<close>.\<close>

fun matches :: "rexp \<Rightarrow> string \<Rightarrow> bool" where
  "matches r [] = nullable r"
| "matches r (c # cs) = matches (deriv c r) cs"

text \<open>
  What a pattern means: the set of strings it denotes. \<open>matches\<close> is shown below to
  decide membership in it.
\<close>

definition conc :: "string set \<Rightarrow> string set \<Rightarrow> string set" where
  "conc A B = {u @ v | u v. u \<in> A \<and> v \<in> B}"

inductive_set star :: "string set \<Rightarrow> string set" for A :: "string set" where
  star_empty: "[] \<in> star A"
| star_step: "u \<in> A \<Longrightarrow> v \<in> star A \<Longrightarrow> u @ v \<in> star A"

fun lang :: "rexp \<Rightarrow> string set" where
  "lang Nul = {}"
| "lang Eps = {[]}"
| "lang (Class rs) = {[c] | c. in_class rs c}"
| "lang AnyChar = {[c] | c. True}"
| "lang (Seq r s) = conc (lang r) (lang s)"
| "lang (Alt r s) = lang r \<union> lang s"
| "lang (Star r) = star (lang r)"

fun Lit :: "string \<Rightarrow> rexp" where
  "Lit [] = Eps"
| "Lit (c # cs) = Seq (Class [(c, c)]) (Lit cs)"

definition Opt :: "rexp \<Rightarrow> rexp" where
  "Opt r = Alt r Eps"

definition Plus :: "rexp \<Rightarrow> rexp" where
  "Plus r = Seq r (Star r)"

definition az :: "char \<times> char" where
  "az = (CHR ''a'', CHR ''z'')"

definition AZ :: "char \<times> char" where
  "AZ = (CHR ''A'', CHR ''Z'')"

definition d09 :: "char \<times> char" where
  "d09 = (CHR ''0'', CHR ''9'')"

definition one :: "char \<Rightarrow> char \<times> char" where
  "one c = (c, c)"

text \<open>\<^verbatim>\<open>\w\<close> is \<^verbatim>\<open>[A-Za-z0-9_]\<close>.\<close>

definition word_chars :: "(char \<times> char) list" where
  "word_chars = [AZ, az, d09, one (CHR ''_'')]"

section \<open>Errors\<close>

text \<open>
  The code throws plain \<^verbatim>\<open>Error\<close> objects told apart by their message; each message is a
  constructor.
  \<^item> \<open>InvalidPathname MustBeNonEmptyString\<close>: \<^verbatim>\<open>Invalid pathname: must be a non-empty string\<close>
  \<^item> \<open>InvalidPathname PathTraversal\<close>: \<^verbatim>\<open>Invalid pathname: path traversal detected\<close>
  \<^item> \<open>InvalidPathname NullByte\<close>: \<^verbatim>\<open>Invalid pathname: null byte detected\<close>
  \<^item> \<open>InvalidInput\<close>: \<^verbatim>\<open>Invalid input: URL must be a non-empty string\<close>
  \<^item> \<open>UntrustedHost\<close>: \<^verbatim>\<open>Invalid URL: Not a valid storage endpoint\<close>
  \<^item> \<open>MalformedInput\<close>: \<^verbatim>\<open>Invalid input: Malformed URL detected\<close>
  \<^item> \<open>SuspiciousPattern\<close>: \<^verbatim>\<open>Invalid input: Domain-like pattern detected in pathname\<close>
  \<^item> \<open>EmptyPathname\<close>: \<^verbatim>\<open>Invalid pathname: cannot be empty\<close>
  \<^item> \<open>URIError\<close>: thrown by \<^verbatim>\<open>decodeURIComponent\<close> on a malformed escape
  \<^item> \<open>DownloadFailed p status text\<close>: \<^verbatim>\<open>Failed to download p: status text\<close>
  \<^item> \<open>NoBody p\<close>: \<^verbatim>\<open>No body in response for p\<close>
  \<^item> \<open>FileNotFound p\<close>: \<^verbatim>\<open>File not found: p\<close>
  \<^item> \<open>TypeError\<close>: thrown by \<^verbatim>\<open>new URL\<close> on a string that is no URL
  \<^item> \<open>BackendError m\<close>: whatever the blob SDK or \<^verbatim>\<open>fetch\<close> throws
\<close>

datatype pathname_reason = MustBeNonEmptyString | PathTraversal | NullByte

datatype error =
    InvalidPathname pathname_reason
  | InvalidInput
  | UntrustedHost
  | MalformedInput
  | SuspiciousPattern
  | EmptyPathname
  | URIError
  | DownloadFailed string nat string
  | NoBody string
  | FileNotFound string
  | TypeError
  | BackendError string

section \<open>Pathname utilities (utils.ts)\<close>

definition dotdot_slash :: string where
  "dotdot_slash = ''../''"

definition dotdot_backslash :: string where
  "dotdot_backslash = [CHR ''.'', CHR ''.'', CHR 0x5C]"

definition null_byte :: string where
  "null_byte = [CHR 0x00]"

definition validatePathname :: "jsval \<Rightarrow> error + unit" where
  "validatePathname v =
     (case v of
        NonString \<Rightarrow> Inl (InvalidPathname MustBeNonEmptyString)
      | Str pathname \<Rightarrow>
          if pathname = [] then Inl (InvalidPathname MustBeNonEmptyString)
          else if str_includes pathname dotdot_slash \<or> str_includes pathname dotdot_backslash
            then Inl (InvalidPathname PathTraversal)
          else if str_includes pathname null_byte then Inl (InvalidPathname NullByte)
          else Inr ())"


text \<open>
  The platform functions the utilities call are parameters of the model:
  \<^item> \<^verbatim>\<open>new URL(s)\<close>, of which the code reads \<^verbatim>\<open>host\<close> and \<^verbatim>\<open>pathname\<close>; \<open>None\<close> when the
    constructor throws;
  \<^item> \<^verbatim>\<open>decodeURIComponent(s)\<close>; \<open>None\<close> when it throws \<^verbatim>\<open>URIError\<close>;
  \<^item> \<^verbatim>\<open>u = new URL(s); u.searchParams.set(k, v); u.toString()\<close>, used by \<^verbatim>\<open>getUrl\<close>;
    \<open>None\<close> when the constructor throws.
\<close>

record parsed_url =
  url_host :: string
  url_pathname :: string

record platform =
  new_URL :: "string \<Rightarrow> parsed_url option"
  decodeURIComponent :: "string \<Rightarrow> string option"
  set_search_param :: "string \<Rightarrow> string \<Rightarrow> string \<Rightarrow> string option"

text \<open>
  \<^verbatim>\<open>/^([\w.-]+\.)?(s3|s3-[\w-]+|s3-website[\w.-]+|s3-accesspoint|s3-control)(\.[\w-]+)?\.amazonaws\.com$/\<close>
\<close>

definition s3_host_re :: rexp where
  "s3_host_re =
     Seq (Opt (Seq (Plus (Class (word_chars @ [one (CHR ''.''), one (CHR ''-'')]))) (Lit ''.'')))
    (Seq (Alt (Lit ''s3'')
         (Alt (Seq (Lit ''s3-'') (Plus (Class (word_chars @ [one (CHR ''-'')]))))
         (Alt (Seq (Lit ''s3-website'') (Plus (Class (word_chars @ [one (CHR ''.''), one (CHR ''-'')]))))
         (Alt (Lit ''s3-accesspoint'') (Lit ''s3-control'')))))
    (Seq (Opt (Seq (Lit ''.'') (Plus (Class (word_chars @ [one (CHR ''-'')])))))
         (Lit ''.amazonaws.com'')))"

definition isValidStorageHost :: "string \<Rightarrow> bool" where
  "isValidStorageHost host =
     (let normalizedHost = toLowerCase host
      in if endsWith normalizedHost ''.blob.vercel-storage.com'' \<or>
            endsWith normalizedHost ''.vercel-storage.com''
         then True
         else if endsWith normalizedHost ''.amazonaws.com''
         then matches s3_host_re normalizedHost
         else False)"

text \<open>
  \<^verbatim>\<open>/^[a-z0-9]([a-z0-9-]*[a-z0-9])?(\.[a-z0-9]([a-z0-9-]*[a-z0-9])?)*\.[a-z]{2,}(\/|$)/i\<close>.
  The flag \<^verbatim>\<open>i\<close> adds the capitals to each class. After the final \<^verbatim>\<open>/\<close> the rest of the
  input is free; the alternative \<^verbatim>\<open>$\<close> is the end of the input.
\<close>

definition alnum_i :: "(char \<times> char) list" where
  "alnum_i = [az, AZ, d09]"

definition domain_label :: rexp where
  "domain_label =
     Seq (Class alnum_i) (Opt (Seq (Star (Class (alnum_i @ [one (CHR ''-'')]))) (Class alnum_i)))"

definition domainPattern :: rexp where
  "domainPattern =
     Seq domain_label
    (Seq (Star (Seq (Lit ''.'') domain_label))
    (Seq (Lit ''.'')
    (Seq (Class [az, AZ])
    (Seq (Class [az, AZ])
    (Seq (Star (Class [az, AZ]))
         (Alt (Seq (Lit ''/'') (Star AnyChar)) Eps))))))"

definition domainPattern_test :: "string \<Rightarrow> bool" where
  "domainPattern_test url = matches domainPattern url"

definition extractPathnameFromUrl :: "platform \<Rightarrow> jsval \<Rightarrow> error + string" where
  "extractPathnameFromUrl P v =
     (case v of
        NonString \<Rightarrow> Inl InvalidInput
      | Str url \<Rightarrow>
          if url = [] then Inl InvalidInput
          else
            (case new_URL P url of
               Some parsedUrl \<Rightarrow>
                 if \<not> isValidStorageHost (url_host parsedUrl) then Inl UntrustedHost
                 else
                   (case decodeURIComponent P (substring1 (url_pathname parsedUrl)) of
                      None \<Rightarrow> Inl URIError
                    | Some pathname \<Rightarrow>
                        (case validatePathname (Str pathname) of
                           Inl e \<Rightarrow> Inl e
                         | Inr _ \<Rightarrow> Inr pathname))
             | None \<Rightarrow>
                 let lowerInput = toLowerCase url
                 in if str_includes lowerInput ''://'' then Inl MalformedInput
                    else if domainPattern_test url then Inl SuspiciousPattern
                    else
                      (case validatePathname (Str url) of
                         Inl e \<Rightarrow> Inl e
                       | Inr _ \<Rightarrow>
                           let pathname = (if startsWith url ''/'' then substring1 url else url)
                           in if pathname = [] then Inl EmptyPathname else Inr pathname)))"


subsection \<open>Base64\<close>

text \<open>
  A \<^verbatim>\<open>Buffer\<close> is a list of bytes. \<^verbatim>\<open>buffer.toString('base64')\<close> is the standard
  encoding with padding: three bytes give four sextets, and a last group of one or two
  bytes is padded with \<^verbatim>\<open>=\<close>.
\<close>

type_synonym byte = "8 word"

definition b64_char :: "nat \<Rightarrow> char" where
  "b64_char n =
     (if n < 26 then char_of (65 + n)
      else if n < 52 then char_of (71 + n)
      else if n < 62 then char_of (n - 4)
      else if n = 62 then CHR ''+'' else CHR ''/'')"

text \<open>The code unit of each character of the alphabet.\<close>

definition b64_code :: "nat \<Rightarrow> nat" where
  "b64_code n =
     (if n < 26 then 65 + n else if n < 52 then 71 + n else if n < 62 then n - 4
      else if n = 62 then 43 else 47)"

fun toString_base64 :: "byte list \<Rightarrow> string" where
  "toString_base64 [] = []"
| "toString_base64 [a] =
     (let x = unat a
      in [b64_char (x div 4), b64_char ((x mod 4) * 16), CHR ''='', CHR ''=''])"
| "toString_base64 [a, b] =
     (let x = unat a; y = unat b
      in [b64_char (x div 4), b64_char ((x mod 4) * 16 + y div 16),
          b64_char ((y mod 16) * 4), CHR ''=''])"
| "toString_base64 (a # b # c # rest) =
     (let x = unat a; y = unat b; z = unat c
      in [b64_char (x div 4), b64_char ((x mod 4) * 16 + y div 16),
          b64_char ((y mod 16) * 4 + z div 64), b64_char (z mod 64)]
         @ toString_base64 rest)"

text \<open>
  \<^verbatim>\<open>Buffer.from(s, 'base64')\<close> is lenient: it accepts the standard and the URL-safe
  alphabet, skips every other character, and stops at the first \<^verbatim>\<open>=\<close>. Four sextets
  give three bytes; three left over give two bytes, two give one, one gives none.
\<close>

definition unbase64 :: "char \<Rightarrow> nat option" where
  "unbase64 c =
     (let n = (of_char c :: nat)
      in if 65 \<le> n \<and> n \<le> 90 then Some (n - 65)
         else if 97 \<le> n \<and> n \<le> 122 then Some (n - 71)
         else if 48 \<le> n \<and> n \<le> 57 then Some (n + 4)
         else if c = CHR ''+'' \<or> c = CHR ''-'' then Some 62
         else if c = CHR ''/'' \<or> c = CHR ''_'' then Some 63
         else None)"

fun sextets_to_bytes :: "nat list \<Rightarrow> byte list" where
  "sextets_to_bytes (p # q # r # s # rest) =
     [of_nat (p * 4 + q div 16), of_nat ((q mod 16) * 16 + r div 4), of_nat ((r mod 4) * 64 + s)]
     @ sextets_to_bytes rest"
| "sextets_to_bytes [p, q, r] =
     [of_nat (p * 4 + q div 16), of_nat ((q mod 16) * 16 + r div 4)]"
| "sextets_to_bytes [p, q] = [of_nat (p * 4 + q div 16)]"
| "sextets_to_bytes _ = []"

definition from_base64 :: "string \<Rightarrow> byte list" where
  "from_base64 s =
     sextets_to_bytes (List.map_filter unbase64 (takeWhile (\<lambda>c. c \<noteq> CHR ''='') s))"

definition base64ToBuffer :: "string \<Rightarrow> byte list" where
  "base64ToBuffer base64 =
     (let base64Data =
        (if str_includes base64 '','' then
           (case split (CHR '','') base64 of
              _ # x # _ \<Rightarrow> x
            | _ \<Rightarrow> base64)
         else base64)
      in from_base64 base64Data)"

definition bufferToBase64 :: "byte list \<Rightarrow> string" where
  "bufferToBase64 buffer = toString_base64 buffer"

section \<open>Bucket namespace (types.ts)\<close>

datatype StorageBucket = attachments | questionnaires | knowledge_base | org_assets | fleet_agents

text \<open>The string each member of the union type is.\<close>

fun bucket_string :: "StorageBucket \<Rightarrow> string" where
  "bucket_string attachments = ''attachments''"
| "bucket_string questionnaires = ''questionnaires''"
| "bucket_string knowledge_base = ''knowledge-base''"
| "bucket_string org_assets = ''org-assets''"
| "bucket_string fleet_agents = ''fleet-agents''"

definition getBucketPrefix :: "StorageBucket \<Rightarrow> string" where
  "getBucketPrefix bucket = bucket_string bucket @ ''/''"

definition buildPathname :: "StorageBucket \<Rightarrow> string \<Rightarrow> string" where
  "buildPathname bucket key =
     (let cleanKey = (if startsWith key ''/'' then substring1 key else key)
      in getBucketPrefix bucket @ cleanKey)"


section \<open>Option and result shapes (types.ts)\<close>

text \<open>An optional field is an \<open>option\<close>; \<open>None\<close> is \<^verbatim>\<open>undefined\<close>. Dates are timestamps.\<close>

record UploadOptions =
  uo_contentType :: "string option"
  uo_cacheControl :: "string option"
  uo_contentDisposition :: "string option"
  uo_metadata :: "(string \<times> string) list option"
  uo_access :: "string option"
  uo_addRandomSuffix :: "bool option"

record UploadResult =
  ur_url :: string
  ur_pathname :: string
  ur_contentType :: string
  ur_size :: nat

record UrlOptions =
  uro_expiresIn :: "nat option"
  uro_download :: "bool option"
  uro_filename :: "string option"
  uro_contentType :: "string option"

record ListOptions =
  lo_prefix :: "string option"
  lo_limit :: "nat option"
  lo_cursor :: "string option"

record BlobInfo =
  bi_pathname :: string
  bi_url :: string
  bi_size :: nat
  bi_uploadedAt :: nat

record ListResult =
  lr_blobs :: "BlobInfo list"
  lr_cursor :: "string option"
  lr_hasMore :: bool

record HeadResult =
  hr_url :: string
  hr_pathname :: string
  hr_contentType :: string
  hr_size :: nat
  hr_uploadedAt :: nat
  hr_cacheControl :: "string option"
  hr_contentDisposition :: "string option"

section \<open>The blob SDK and fetch\<close>

text \<open>
  The provider reaches the object store through four functions of the blob SDK
  (\<^verbatim>\<open>put\<close>, \<^verbatim>\<open>del\<close>, \<^verbatim>\<open>head\<close>, \<^verbatim>\<open>list\<close>) and through \<^verbatim>\<open>fetch\<close>. They are
  parameters of the model: functions on a state of the outside world \<open>'w\<close> that return a
  value or throw. The records below hold what the provider passes and reads.
\<close>

text \<open>
  A number that comes out of \<^verbatim>\<open>parseInt(digits, 10)\<close> is a double. Up to \<open>2 ^ 53\<close> it is
  the integer the digits denote. Beyond, it is that integer rounded, with latitude left
  to the engine after the twentieth digit, or \<^verbatim>\<open>Infinity\<close>: a value this model does not
  compute.
\<close>

datatype js_number = Exact nat | Rounded

record put_options =
  po_access :: string
  po_token :: string
  po_contentType :: "string option"
  po_cacheControlMaxAge :: "js_number option"
  po_addRandomSuffix :: bool

record PutBlobResult =
  pbr_url :: string
  pbr_downloadUrl :: string
  pbr_pathname :: string
  pbr_contentType :: string
  pbr_contentDisposition :: string

record HeadBlobResult =
  hbr_url :: string
  hbr_downloadUrl :: string
  hbr_pathname :: string
  hbr_contentType :: string
  hbr_size :: nat
  hbr_uploadedAt :: nat
  hbr_cacheControl :: string
  hbr_contentDisposition :: string

record list_options =
  lio_token :: string
  lio_prefix :: "string option"
  lio_limit :: "nat option"
  lio_cursor :: "string option"

record ListBlobResultBlob =
  lb_url :: string
  lb_downloadUrl :: string
  lb_pathname :: string
  lb_size :: nat
  lb_uploadedAt :: nat

record ListBlobResult =
  lbr_blobs :: "ListBlobResultBlob list"
  lbr_cursor :: "string option"
  lbr_hasMore :: bool

text \<open>\<^verbatim>\<open>del\<close> takes one URL or an array of URLs.\<close>

datatype del_target = Single string | Multiple "string list"

text \<open>A \<^verbatim>\<open>Response\<close>: \<open>None\<close> is a null body; a stream is the bytes it yields.\<close>

record response =
  resp_ok :: bool
  resp_status :: nat
  resp_statusText :: string
  resp_body :: "byte list option"

definition arrayBuffer :: "response \<Rightarrow> byte list" where
  "arrayBuffer r = (case resp_body r of None \<Rightarrow> [] | Some b \<Rightarrow> b)"

type_synonym ('w, 'a) io = "'w \<Rightarrow> (error + 'a) \<times> 'w"

record 'w sdk =
  sdk_put :: "string \<Rightarrow> byte list \<Rightarrow> put_options \<Rightarrow> ('w, PutBlobResult) io"
  sdk_del :: "del_target \<Rightarrow> string \<Rightarrow> ('w, unit) io"
  sdk_head :: "string \<Rightarrow> string \<Rightarrow> ('w, HeadBlobResult option) io"
  sdk_list :: "list_options \<Rightarrow> ('w, ListBlobResult) io"
  sdk_fetch :: "string \<Rightarrow> (string \<times> string) list \<Rightarrow> ('w, response) io"

text \<open>\<^verbatim>\<open>await\<close> in sequence: a rejection ends the function with that error.\<close>

definition return :: "'a \<Rightarrow> ('w, 'a) io" where
  "return a w = (Inr a, w)"

definition throw :: "error \<Rightarrow> ('w, 'a) io" where
  "throw e w = (Inl e, w)"

definition await :: "('w, 'a) io \<Rightarrow> ('a \<Rightarrow> ('w, 'b) io) \<Rightarrow> ('w, 'b) io" where
  "await m f w = (case m w of (Inl e, w') \<Rightarrow> (Inl e, w') | (Inr a, w') \<Rightarrow> f a w')"

section \<open>The provider (blob-provider.ts)\<close>

record VercelBlobProvider =
  token :: string

text \<open>
  The constructor: \<^verbatim>\<open>token || process.env.BLOB_READ_WRITE_TOKEN || ''\<close>, where an empty
  string is falsy, and a warning on the console when the result is empty.
\<close>

definition truthy :: "string option \<Rightarrow> bool" where
  "truthy s = (case s of None \<Rightarrow> False | Some t \<Rightarrow> t \<noteq> [])"

definition no_token_warning :: string where
  "no_token_warning = ''[Storage] BLOB_READ_WRITE_TOKEN not set - storage operations will fail''"

definition new_VercelBlobProvider ::
  "string option \<Rightarrow> string option \<Rightarrow> VercelBlobProvider \<times> string list" where
  "new_VercelBlobProvider tok env =
     (let t = (if truthy tok then the tok else if truthy env then the env else [])
      in (\<lparr>token = t\<rparr>, if t = [] then [no_token_warning] else []))"

definition resolveUrl :: "string \<Rightarrow> string" where
  "resolveUrl pathname =
     (if startsWith pathname ''http://'' \<or> startsWith pathname ''https://'' then pathname
      else pathname)"

text \<open>
  \<^verbatim>\<open>parseCacheControl\<close>: the digits after the leftmost \<^verbatim>\<open>max-age=\<close> that a digit follows
  (\<^verbatim>\<open>/max-age=(\d+)/\<close>), read in base ten; else a year for \<^verbatim>\<open>immutable\<close>; else 0.
\<close>

definition is_digit :: "char \<Rightarrow> bool" where
  "is_digit c = in_range d09 c"

fun find_max_age :: "string \<Rightarrow> string option" where
  "find_max_age [] = None"
| "find_max_age (c # cs) =
     (if prefix ''max-age='' (c # cs) \<and>
         takeWhile is_digit (drop 8 (c # cs)) \<noteq> []
      then Some (takeWhile is_digit (drop 8 (c # cs)))
      else find_max_age cs)"

definition parseInt10 :: "string \<Rightarrow> js_number" where
  "parseInt10 ds =
     (let n = foldl (\<lambda>n c. 10 * n + (of_char c - 48)) (0 :: nat) ds
      in if n \<le> 2 ^ 53 then Exact n else Rounded)"

definition parseCacheControl :: "string \<Rightarrow> js_number" where
  "parseCacheControl cacheControl =
     (case find_max_age cacheControl of
        Some m \<Rightarrow> parseInt10 m
      | None \<Rightarrow> if str_includes cacheControl ''immutable'' then Exact 31536000 else Exact 0)"

definition upload ::
  "'w sdk \<Rightarrow> VercelBlobProvider \<Rightarrow> string \<Rightarrow> byte list \<Rightarrow> UploadOptions option
     \<Rightarrow> ('w, UploadResult) io" where
  "upload B this pathname data options =
     await (sdk_put B pathname data
              \<lparr>po_access = ''public'',
               po_token = token this,
               po_contentType = (case options of None \<Rightarrow> None | Some opts \<Rightarrow> uo_contentType opts),
               po_cacheControlMaxAge =
                 (case options of
                    None \<Rightarrow> None
                  | Some opts \<Rightarrow>
                      if truthy (uo_cacheControl opts)
                      then Some (parseCacheControl (the (uo_cacheControl opts))) else None),
               po_addRandomSuffix =
                 (case options of
                    None \<Rightarrow> False
                  | Some opts \<Rightarrow> (case uo_addRandomSuffix opts of None \<Rightarrow> False | Some b \<Rightarrow> b))\<rparr>)
       (\<lambda>result.
          return \<lparr>ur_url = pbr_url result,
                  ur_pathname = pbr_pathname result,
                  ur_contentType = pbr_contentType result,
                  ur_size = 0\<rparr>)"

definition auth_headers :: "VercelBlobProvider \<Rightarrow> (string \<times> string) list" where
  "auth_headers this =
     (if token this \<noteq> [] then [(''Authorization'', ''Bearer '' @ token this)] else [])"

definition download :: "'w sdk \<Rightarrow> VercelBlobProvider \<Rightarrow> string \<Rightarrow> ('w, byte list) io" where
  "download B this pathname =
     (let url = resolveUrl pathname
      in await (sdk_fetch B url (auth_headers this))
           (\<lambda>response.
              if \<not> resp_ok response
              then throw (DownloadFailed pathname (resp_status response) (resp_statusText response))
              else return (arrayBuffer response)))"

definition downloadStream :: "'w sdk \<Rightarrow> VercelBlobProvider \<Rightarrow> string \<Rightarrow> ('w, byte list) io" where
  "downloadStream B this pathname =
     (let url = resolveUrl pathname
      in await (sdk_fetch B url (auth_headers this))
           (\<lambda>response.
              if \<not> resp_ok response
              then throw (DownloadFailed pathname (resp_status response) (resp_statusText response))
              else (case resp_body response of
                      None \<Rightarrow> throw (NoBody pathname)
                    | Some body \<Rightarrow> return body)))"

text \<open>\<^verbatim>\<open>try { ... } catch { return null }\<close>: any rejection of the SDK's \<^verbatim>\<open>head\<close> becomes null.\<close>

definition head :: "'w sdk \<Rightarrow> VercelBlobProvider \<Rightarrow> string \<Rightarrow> ('w, HeadResult option) io" where
  "head B this pathname w =
     (let url = resolveUrl pathname
      in case sdk_head B url (token this) w of
           (Inl e, w') \<Rightarrow> (Inr None, w')
         | (Inr None, w') \<Rightarrow> (Inr None, w')
         | (Inr (Some result), w') \<Rightarrow>
             (Inr (Some \<lparr>hr_url = hbr_url result,
                         hr_pathname = hbr_pathname result,
                         hr_contentType = hbr_contentType result,
                         hr_size = hbr_size result,
                         hr_uploadedAt = hbr_uploadedAt result,
                         hr_cacheControl = Some (hbr_cacheControl result),
                         hr_contentDisposition = Some (hbr_contentDisposition result)\<rparr>), w'))"

definition getUrl ::
  "platform \<Rightarrow> 'w sdk \<Rightarrow> VercelBlobProvider \<Rightarrow> string \<Rightarrow> UrlOptions option \<Rightarrow> ('w, string) io" where
  "getUrl P B this pathname options =
     await (head B this pathname)
       (\<lambda>headResult.
          case headResult of
            None \<Rightarrow> throw (FileNotFound pathname)
          | Some h \<Rightarrow>
              let url = hr_url h;
                  dl = (case options of None \<Rightarrow> False | Some opts \<Rightarrow> uro_download opts = Some True);
                  fname = (case options of None \<Rightarrow> None | Some opts \<Rightarrow> uro_filename opts)
              in if dl \<and> truthy fname then
                   (case set_search_param P url ''download'' (the fname) of
                      None \<Rightarrow> throw TypeError
                    | Some u \<Rightarrow> return u)
                 else if dl then
                   (case set_search_param P url ''download'' ''1'' of
                      None \<Rightarrow> throw TypeError
                    | Some u \<Rightarrow> return u)
                 else return url)"

definition delete :: "'w sdk \<Rightarrow> VercelBlobProvider \<Rightarrow> string \<Rightarrow> ('w, unit) io" where
  "delete B this pathname =
     (let url = resolveUrl pathname
      in await (sdk_del B (Single url) (token this)) (\<lambda>_. return ()))"

definition deleteMany :: "'w sdk \<Rightarrow> VercelBlobProvider \<Rightarrow> string list \<Rightarrow> ('w, unit) io" where
  "deleteMany B this pathnames =
     (if length pathnames = 0 then return ()
      else
        let urls = map resolveUrl pathnames
        in await (sdk_del B (Multiple urls) (token this)) (\<lambda>_. return ()))"

definition copy ::
  "'w sdk \<Rightarrow> VercelBlobProvider \<Rightarrow> string \<Rightarrow> string \<Rightarrow> ('w, UploadResult) io" where
  "copy B this sourcePathname destPathname =
     await (download B this sourcePathname)
       (\<lambda>data.
          await (head B this sourcePathname)
            (\<lambda>headResult.
               upload B this destPathname data
                 (Some \<lparr>uo_contentType =
                          (case headResult of None \<Rightarrow> None | Some h \<Rightarrow> Some (hr_contentType h)),
                        uo_cacheControl = None,
                        uo_contentDisposition = None,
                        uo_metadata = None,
                        uo_access = None,
                        uo_addRandomSuffix = None\<rparr>)))"

definition exists :: "'w sdk \<Rightarrow> VercelBlobProvider \<Rightarrow> string \<Rightarrow> ('w, bool) io" where
  "exists B this pathname =
     await (head B this pathname) (\<lambda>result. return (result \<noteq> None))"

definition list_blobs ::
  "'w sdk \<Rightarrow> VercelBlobProvider \<Rightarrow> ListOptions option \<Rightarrow> ('w, ListResult) io" where
  "list_blobs B this options =
     await (sdk_list B
              \<lparr>lio_token = token this,
               lio_prefix = (case options of None \<Rightarrow> None | Some opts \<Rightarrow> lo_prefix opts),
               lio_limit = (case options of None \<Rightarrow> None | Some opts \<Rightarrow> lo_limit opts),
               lio_cursor = (case options of None \<Rightarrow> None | Some opts \<Rightarrow> lo_cursor opts)\<rparr>)
       (\<lambda>result.
          return \<lparr>lr_blobs =
                    map (\<lambda>blob. \<lparr>bi_pathname = lb_pathname blob,
                                  bi_url = lb_url blob,
                                  bi_size = lb_size blob,
                                  bi_uploadedAt = lb_uploadedAt blob\<rparr>) (lbr_blobs result),
                  lr_cursor = lbr_cursor result,
                  lr_hasMore = lbr_hasMore result\<rparr>)"


section \<open>The process-wide handle (index.ts)\<close>

text \<open>
  The module state: the variable \<^verbatim>\<open>storageInstance\<close> (\<open>None\<close> is \<^verbatim>\<open>null\<close>), the
  environment variable the constructor reads, the console, and a count of the
  constructor's runs, which the code does not hold but an observer of the process can
  keep.
\<close>

record process =
  storageInstance :: "VercelBlobProvider option"
  env_BLOB_READ_WRITE_TOKEN :: "string option"
  console :: "string list"
  constructions :: nat

definition getStorage :: "process \<Rightarrow> VercelBlobProvider \<times> process" where
  "getStorage p =
     (case storageInstance p of
        Some instance \<Rightarrow> (instance, p)
      | None \<Rightarrow>
          let (instance, warnings) = new_VercelBlobProvider None (env_BLOB_READ_WRITE_TOKEN p)
          in (instance,
              p\<lparr>storageInstance := Some instance,
                console := console p @ warnings,
                constructions := Suc (constructions p)\<rparr>))"

text \<open>
  A call of a method of the provider contract with its arguments, and what it resolves
  to. \<open>invoke\<close> is \<^verbatim>\<open>instance[prop].apply(instance, args)\<close>.
\<close>

datatype request =
    Upload string "byte list" "UploadOptions option"
  | Download string
  | DownloadStream string
  | GetUrl string "UrlOptions option"
  | Delete string
  | DeleteMany "string list"
  | Copy string string
  | Exists string
  | Head string
  | List "ListOptions option"

datatype reply =
    Uploaded UploadResult
  | Buffer "byte list"
  | ReadableStream "byte list"
  | Url string
  | Void
  | Boolean bool
  | Metadata "HeadResult option"
  | Listing ListResult

fun invoke ::
  "platform \<Rightarrow> 'w sdk \<Rightarrow> VercelBlobProvider \<Rightarrow> request \<Rightarrow> ('w, reply) io" where
  "invoke P B instance (Upload pathname data options) =
     await (upload B instance pathname data options) (\<lambda>r. return (Uploaded r))"
| "invoke P B instance (Download pathname) =
     await (download B instance pathname) (\<lambda>r. return (Buffer r))"
| "invoke P B instance (DownloadStream pathname) =
     await (downloadStream B instance pathname) (\<lambda>r. return (ReadableStream r))"
| "invoke P B instance (GetUrl pathname options) =
     await (getUrl P B instance pathname options) (\<lambda>r. return (Url r))"
| "invoke P B instance (Delete pathname) =
     await (delete B instance pathname) (\<lambda>_. return Void)"
| "invoke P B instance (DeleteMany pathnames) =
     await (deleteMany B instance pathnames) (\<lambda>_. return Void)"
| "invoke P B instance (Copy sourcePathname destPathname) =
     await (copy B instance sourcePathname destPathname) (\<lambda>r. return (Uploaded r))"
| "invoke P B instance (Exists pathname) =
     await (exists B instance pathname) (\<lambda>r. return (Boolean r))"
| "invoke P B instance (Head pathname) =
     await (head B instance pathname) (\<lambda>r. return (Metadata r))"
| "invoke P B instance (List options) =
     await (list_blobs B instance options) (\<lambda>r. return (Listing r))"

text \<open>
  \<^verbatim>\<open>storage.method(...args)\<close>: the proxy's \<^verbatim>\<open>get\<close> trap returns a function that, when
  called, takes the instance from \<^verbatim>\<open>getStorage()\<close> and applies the instance's method.
\<close>

definition storage ::
  "platform \<Rightarrow> 'w sdk \<Rightarrow> request \<Rightarrow> process \<times> 'w \<Rightarrow> (error + reply) \<times> process \<times> 'w" where
  "storage P B req st =
     (let (instance, p') = getStorage (fst st);
          (res, w') = invoke P B instance req (snd st)
      in (res, p', w'))"

text \<open>A run of calls, one after the other, on the handle and on a provider.\<close>

fun run_storage ::
  "platform \<Rightarrow> 'w sdk \<Rightarrow> request list \<Rightarrow> process \<times> 'w
     \<Rightarrow> (error + reply) list \<times> process \<times> 'w" where
  "run_storage P B [] st = ([], st)"
| "run_storage P B (req # reqs) st =
     (let (res, st') = storage P B req st;
          (rs, st'') = run_storage P B reqs st'
      in (res # rs, st''))"

fun run_provider ::
  "platform \<Rightarrow> 'w sdk \<Rightarrow> VercelBlobProvider \<Rightarrow> request list \<Rightarrow> 'w
     \<Rightarrow> (error + reply) list \<times> 'w" where
  "run_provider P B instance [] w = ([], w)"
| "run_provider P B instance (req # reqs) w =
     (let (res, w') = invoke P B instance req w;
          (rs, w'') = run_provider P B instance reqs w'
      in (res # rs, w''))"

text \<open>The process at start-up: nothing constructed yet.\<close>

definition initial_process :: "string option \<Rightarrow> process" where
  "initial_process env =
     \<lparr>storageInstance = None, env_BLOB_READ_WRITE_TOKEN = env, console = [], constructions = 0\<rparr>"

section \<open>Observing the calls that reach the backend\<close>

text \<open>
  \<open>traced B\<close> behaves as the backend \<open>B\<close> and appends every call, with its arguments, to a
  log kept beside the state of the world.
\<close>

datatype sdk_call =
    PutCall string "byte list" put_options
  | DelCall del_target string
  | HeadCall string string
  | ListCall list_options
  | FetchCall string "(string \<times> string) list"

definition logged :: "sdk_call \<Rightarrow> ('w, 'a) io \<Rightarrow> ('w \<times> sdk_call list, 'a) io" where
  "logged c m st = (case m (fst st) of (r, w') \<Rightarrow> (r, (w', snd st @ [c])))"

definition traced :: "'w sdk \<Rightarrow> ('w \<times> sdk_call list) sdk" where
  "traced B =
     \<lparr>sdk_put = (\<lambda>pathname data opts. logged (PutCall pathname data opts) (sdk_put B pathname data opts)),
      sdk_del = (\<lambda>target tok. logged (DelCall target tok) (sdk_del B target tok)),
      sdk_head = (\<lambda>url tok. logged (HeadCall url tok) (sdk_head B url tok)),
      sdk_list = (\<lambda>opts. logged (ListCall opts) (sdk_list B opts)),
      sdk_fetch = (\<lambda>url headers. logged (FetchCall url headers) (sdk_fetch B url headers))\<rparr>"

text \<open>The calls a program makes when run on \<open>B\<close> from the world \<open>w\<close>.\<close>

definition calls_of :: "('w \<times> sdk_call list, 'a) io \<Rightarrow> 'w \<Rightarrow> sdk_call list" where
  "calls_of m w = snd (snd (m (w, [])))"


section \<open>A concrete platform and a concrete backend for the examples\<close>

text \<open>
  The theorems below hold for every platform and every backend. Their examples need one
  of each to compute with.

  \<open>example_URL\<close> stands in for \<^verbatim>\<open>new URL\<close> on inputs of the shape \<^verbatim>\<open>https://host/path\<close>
  with a host of letters, digits, dots and hyphens and a path of letters, digits and
  \<^verbatim>\<open>/ - _ .\<close> without a segment that starts with a dot; it reports every other input as
  no URL. \<open>example_decode\<close> stands in for \<^verbatim>\<open>decodeURIComponent\<close>: it decodes the escapes
  of ASCII characters and reports every other escape as malformed.
\<close>

definition host_char :: "char \<Rightarrow> bool" where
  "host_char c = in_class [az, AZ, d09, one (CHR ''.''), one (CHR ''-'')] c"

definition path_char :: "char \<Rightarrow> bool" where
  "path_char c =
     in_class [az, AZ, d09, one (CHR ''/''), one (CHR ''-''), one (CHR ''_''), one (CHR ''.'')] c"

definition example_URL :: "string \<Rightarrow> parsed_url option" where
  "example_URL s =
     (if prefix ''https://'' s then
        (let rest = drop 8 s;
             h = takeWhile (\<lambda>c. c \<noteq> CHR ''/'') rest;
             p = dropWhile (\<lambda>c. c \<noteq> CHR ''/'') rest
         in if h \<noteq> [] \<and> list_all host_char h \<and> list_all path_char p \<and> \<not> str_includes p ''/.''
            then Some \<lparr>url_host = toLowerCase h, url_pathname = (if p = [] then ''/'' else p)\<rparr>
            else None)
      else None)"

definition hex_digit :: "char \<Rightarrow> nat option" where
  "hex_digit c =
     (let n = (of_char c :: nat)
      in if 48 \<le> n \<and> n \<le> 57 then Some (n - 48)
         else if 65 \<le> n \<and> n \<le> 70 then Some (n - 55)
         else if 97 \<le> n \<and> n \<le> 102 then Some (n - 87)
         else None)"

fun example_decode :: "string \<Rightarrow> string option" where
  "example_decode [] = Some []"
| "example_decode (c # cs) =
     (if c = CHR ''%'' then
        (case cs of
           h # l # rest \<Rightarrow>
             (case (hex_digit h, hex_digit l) of
                (Some x, Some y) \<Rightarrow>
                  if 16 * x + y < 128
                  then map_option ((#) (char_of (16 * x + y))) (example_decode rest)
                  else None
              | _ \<Rightarrow> None)
         | _ \<Rightarrow> None)
      else map_option ((#) c) (example_decode cs))"

definition example_set_search_param :: "string \<Rightarrow> string \<Rightarrow> string \<Rightarrow> string option" where
  "example_set_search_param url k v =
     (case example_URL url of None \<Rightarrow> None | Some _ \<Rightarrow> Some (url @ ''?'' @ k @ ''='' @ v))"

definition example_platform :: platform where
  "example_platform =
     \<lparr>new_URL = example_URL,
      decodeURIComponent = example_decode,
      set_search_param = example_set_search_param\<rparr>"

text \<open>
  \<open>store\<close> is an object store in memory: objects under their URL, each with its bytes and
  content type. It answers \<^verbatim>\<open>fetch\<close> with 404 and rejects \<^verbatim>\<open>head\<close> for an unknown
  URL, and it rejects a \<^verbatim>\<open>del\<close> request as a whole when the request names a URL on its
  list \<open>refused\<close>.
\<close>

record stored =
  st_bytes :: "byte list"
  st_contentType :: string

record store =
  objects :: "(string \<times> stored) list"
  refused :: "string list"

definition store_base :: string where
  "store_base = ''https://store.public.blob.vercel-storage.com/''"

definition store_put :: "string \<Rightarrow> byte list \<Rightarrow> put_options \<Rightarrow> (store, PutBlobResult) io" where
  "store_put pathname data opts w =
     (let url = store_base @ pathname;
          ct = (case po_contentType opts of None \<Rightarrow> ''application/octet-stream'' | Some t \<Rightarrow> t)
      in (Inr \<lparr>pbr_url = url,
               pbr_downloadUrl = url @ ''?download=1'',
               pbr_pathname = pathname,
               pbr_contentType = ct,
               pbr_contentDisposition = ''inline''\<rparr>,
          w\<lparr>objects := (url, \<lparr>st_bytes = data, st_contentType = ct\<rparr>)
                          # filter (\<lambda>kv. fst kv \<noteq> url) (objects w)\<rparr>))"

definition store_del :: "del_target \<Rightarrow> string \<Rightarrow> (store, unit) io" where
  "store_del target tok w =
     (let urls = (case target of Single u \<Rightarrow> [u] | Multiple us \<Rightarrow> us)
      in if list_ex (\<lambda>u. u \<in> set (refused w)) urls
         then (Inl (BackendError ''delete refused''), w)
         else (Inr (), w\<lparr>objects := filter (\<lambda>kv. fst kv \<notin> set urls) (objects w)\<rparr>))"

definition store_head :: "string \<Rightarrow> string \<Rightarrow> (store, HeadBlobResult option) io" where
  "store_head url tok w =
     (case map_of (objects w) url of
        None \<Rightarrow> (Inl (BackendError ''BlobNotFoundError''), w)
      | Some ob \<Rightarrow>
          (Inr (Some \<lparr>hbr_url = url,
                      hbr_downloadUrl = url @ ''?download=1'',
                      hbr_pathname = drop (length store_base) url,
                      hbr_contentType = st_contentType ob,
                      hbr_size = length (st_bytes ob),
                      hbr_uploadedAt = 0,
                      hbr_cacheControl = ''public, max-age=31536000'',
                      hbr_contentDisposition = ''inline''\<rparr>), w))"

definition store_list :: "list_options \<Rightarrow> (store, ListBlobResult) io" where
  "store_list opts w =
     (Inr \<lparr>lbr_blobs =
             map (\<lambda>kv. \<lparr>lb_url = fst kv,
                        lb_downloadUrl = fst kv @ ''?download=1'',
                        lb_pathname = drop (length store_base) (fst kv),
                        lb_size = length (st_bytes (snd kv)),
                        lb_uploadedAt = 0\<rparr>) (objects w),
           lbr_cursor = None,
           lbr_hasMore = False\<rparr>, w)"

definition store_fetch :: "string \<Rightarrow> (string \<times> string) list \<Rightarrow> (store, response) io" where
  "store_fetch url headers w =
     (case map_of (objects w) url of
        None \<Rightarrow>
          (Inr \<lparr>resp_ok = False, resp_status = 404, resp_statusText = ''Not Found'',
                resp_body = None\<rparr>, w)
      | Some ob \<Rightarrow>
          (Inr \<lparr>resp_ok = True, resp_status = 200, resp_statusText = ''OK'',
                resp_body = Some (st_bytes ob)\<rparr>, w))"

definition store_sdk :: "store sdk" where
  "store_sdk =
     \<lparr>sdk_put = store_put, sdk_del = store_del, sdk_head = store_head,
      sdk_list = store_list, sdk_fetch = store_fetch\<rparr>"


section \<open>The matcher decides the language of a pattern\<close>

lemma nullable_lang: "nullable r = ([] \<in> lang r)"
  by (induction r) (auto simp: conc_def star_empty)

lemma lang_seq: "lang (seq r s) = conc (lang r) (lang s)"
  by (auto simp: seq_def conc_def)

lemma lang_alt: "lang (alt r s) = lang r \<union> lang s"
  by (auto simp: alt_def)

lemma conc_cons:
  "(c # w \<in> conc A B) =
     ((\<exists>u v. w = u @ v \<and> c # u \<in> A \<and> v \<in> B) \<or> ([] \<in> A \<and> c # w \<in> B))"
  unfolding conc_def
  by (auto simp: Cons_eq_append_conv)

lemma conc_left_quotient:
  "(w \<in> conc {u. c # u \<in> A} B) = (\<exists>u v. w = u @ v \<and> c # u \<in> A \<and> v \<in> B)"
  by (auto simp: conc_def)

lemma star_cons_only_if:
  assumes "x \<in> star A"
  shows "x = c # w \<Longrightarrow> \<exists>u v. w = u @ v \<and> c # u \<in> A \<and> v \<in> star A"
  using assms
proof (induction arbitrary: w rule: star.induct)
  case star_empty
  then show ?case by simp
next
  case (star_step u v)
  show ?case
  proof (cases u)
    case Nil
    with star_step show ?thesis by simp
  next
    case (Cons d u')
    with star_step.prems have "d = c" "w = u' @ v" by simp_all
    with Cons star_step.hyps show ?thesis by blast
  qed
qed

lemma star_cons:
  "(c # w \<in> star A) = (\<exists>u v. w = u @ v \<and> c # u \<in> A \<and> v \<in> star A)"
proof
  assume "c # w \<in> star A"
  then show "\<exists>u v. w = u @ v \<and> c # u \<in> A \<and> v \<in> star A"
    by (rule star_cons_only_if) simp
next
  assume "\<exists>u v. w = u @ v \<and> c # u \<in> A \<and> v \<in> star A"
  then obtain u v where "w = u @ v" "c # u \<in> A" "v \<in> star A" by blast
  then show "c # w \<in> star A"
    using star_step [of "c # u" A v] by simp
qed

lemma deriv_lang: "lang (deriv c r) = {w. c # w \<in> lang r}"
proof (induction r)
  case (Seq r s)
  then show ?case
    by (auto simp: lang_seq lang_alt conc_cons nullable_lang conc_left_quotient) blast
next
  case (Star r)
  then show ?case
    by (auto simp: lang_seq star_cons conc_left_quotient) blast
qed (auto simp: lang_alt)

lemma matches_lang: "matches r s = (s \<in> lang r)"
  by (induction s arbitrary: r) (simp_all add: nullable_lang deriv_lang)

section \<open>Facts about the string primitives\<close>

lemma str_includes_sublist: "str_includes s sub = sublist sub s"
  by (induction s) (auto simp: sublist_Cons_right)

lemma sublist_null_byte: "sublist null_byte s = (CHR 0x00 \<in> set s)"
  unfolding str_includes_sublist [symmetric]
  by (induction s) (auto simp: null_byte_def)

lemma lower_char_ascii_fix:
  assumes "(of_char c :: nat) < 65"
  shows "(lower_char x = c) = (x = c)"
proof (cases "lower_char x = x")
  case True
  then show ?thesis by simp
next
  case False
  then have cond: "(65 \<le> (of_char x :: nat) \<and> (of_char x :: nat) \<le> 90) \<or>
      (192 \<le> (of_char x :: nat) \<and> (of_char x :: nat) \<le> 222 \<and> (of_char x :: nat) \<noteq> 215)"
    by (simp add: lower_char_def Let_def split: if_splits)
  then have up: "lower_char x = char_of ((of_char x :: nat) + 32)"
    by (simp add: lower_char_def Let_def)
  from cond have lo: "65 \<le> (of_char x :: nat)" and hi: "(of_char x :: nat) \<le> 222"
    by arith+
  have "(of_char (lower_char x) :: nat) = (of_char x + 32) mod 256"
    unfolding up by simp
  also have "\<dots> = of_char x + 32"
    using hi by (intro mod_less) simp
  finally have "(of_char (lower_char x) :: nat) \<noteq> of_char c"
    using assms lo by arith
  then have "lower_char x \<noteq> c" by blast
  moreover have "x \<noteq> c" using lo assms by auto
  ultimately show ?thesis by simp
qed

lemma prefix_map_fix:
  assumes "\<And>x c. c \<in> set p \<Longrightarrow> (f x = c) = (x = c)"
  shows "prefix p (map f s) = prefix p s"
  using assms
proof (induction p arbitrary: s)
  case Nil
  then show ?case by simp
next
  case (Cons a p)
  have fx: "(f x = a) = (x = a)" for x using Cons.prems [of a x] by simp
  have IH: "prefix p (map f t) = prefix p t" for t using Cons by simp
  show ?case
  proof (cases s)
    case Nil
    then show ?thesis by simp
  next
    case (Cons b l)
    have "(a = f b) = (a = b)" using fx [of b] by auto
    then show ?thesis using Cons IH by simp
  qed
qed

lemma str_includes_map_fix:
  assumes "\<And>x c. c \<in> set p \<Longrightarrow> (f x = c) = (x = c)"
  shows "str_includes (map f s) p = str_includes s p"
proof (induction s)
  case Nil
  then show ?case by simp
next
  case (Cons a s)
  have "prefix p (map f (a # s)) = prefix p (a # s)"
    using assms by (rule prefix_map_fix)
  with Cons show ?case by simp
qed

lemma includes_scheme_separator_lower:
  "str_includes (toLowerCase url) ''://'' = sublist ''://'' url"
proof -
  have "str_includes (map lower_char url) ''://'' = str_includes url ''://''"
    by (rule str_includes_map_fix) (auto simp: lower_char_ascii_fix)
  then show ?thesis by (simp add: toLowerCase_def str_includes_sublist)
qed


section \<open>validatePathname\<close>

lemma validatePathname_cases:
  "validatePathname v = Inr () \<or> (\<exists>r. validatePathname v = Inl (InvalidPathname r))"
  by (simp add: validatePathname_def split: jsval.splits)

lemma validatePathname_ok_iff:
  "(validatePathname v = Inr ()) =
     (\<exists>s. v = Str s \<and> s \<noteq> [] \<and> \<not> sublist dotdot_slash s \<and> \<not> sublist dotdot_backslash s
          \<and> CHR 0x00 \<notin> set s)"
  by (cases v) (auto simp: validatePathname_def str_includes_sublist sublist_null_byte)

lemma str_includes_after_slash:
  assumes "sub \<noteq> []" "hd sub \<noteq> CHR ''/''"
  shows "str_includes (CHR ''/'' # t) sub = str_includes t sub"
  using assms by (cases sub) auto

lemma validatePathname_strip_slash:
  assumes "t \<noteq> []"
  shows "validatePathname (Str (CHR ''/'' # t)) = validatePathname (Str t)"
  using assms
  by (simp add: validatePathname_def str_includes_after_slash dotdot_slash_def
      dotdot_backslash_def null_byte_def)

lemmas regex_eval = domainPattern_test_def domainPattern_def domain_label_def Opt_def Plus_def
  alnum_i_def az_def AZ_def d09_def one_def seq_def alt_def in_class_def in_range_def
  s3_host_re_def word_chars_def

lemmas url_eval = example_platform_def example_URL_def host_char_def path_char_def
  in_class_def in_range_def az_def AZ_def d09_def one_def toLowerCase_def lower_char_def

lemma example_not_domain_1: "\<not> domainPattern_test ''attachments/org1/file.pdf''"
  by (simp add: regex_eval)

lemma example_not_domain_2: "\<not> domainPattern_test ''attachments/../../etc/passwd''"
  by (simp add: regex_eval)

text \<open>
  C2. \<open>validatePathname\<close> fails, with the invalid-pathname error, exactly when its argument
  is not a string, is the empty string, contains \<^verbatim>\<open>../\<close>, contains \<^verbatim>\<open>..\\<close> or contains a
  null byte; on every other string it returns. So it fails on \<^verbatim>\<open>a/../b\<close>; and, these two
  inputs being no URLs, \<open>extractPathnameFromUrl\<close> fails with that error on
  \<^verbatim>\<open>attachments/../../etc/passwd\<close> and returns \<^verbatim>\<open>attachments/org1/file.pdf\<close> unchanged.
\<close>

theorem validatePathname_fails_iff:
  "((\<exists>r. validatePathname v = Inl (InvalidPathname r)) =
      (v = NonString \<or>
       (\<exists>s. v = Str s \<and>
          (s = [] \<or> sublist ''../'' s \<or> sublist [CHR ''.'', CHR ''.'', CHR 0x5C] s \<or>
           CHR 0x00 \<in> set s)))) \<and>
   (validatePathname v = Inr () \<or> (\<exists>r. validatePathname v = Inl (InvalidPathname r))) \<and>
   (\<exists>r. validatePathname (Str ''a/../b'') = Inl (InvalidPathname r)) \<and>
   (new_URL P ''attachments/../../etc/passwd'' = None \<longrightarrow>
      (\<exists>r. extractPathnameFromUrl P (Str ''attachments/../../etc/passwd'') =
             Inl (InvalidPathname r))) \<and>
   (new_URL P ''attachments/org1/file.pdf'' = None \<longrightarrow>
      extractPathnameFromUrl P (Str ''attachments/org1/file.pdf'') =
        Inr ''attachments/org1/file.pdf'')"
proof (intro conjI impI)
  have ok: "(validatePathname v = Inr ()) =
      (\<not> (v = NonString \<or>
       (\<exists>s. v = Str s \<and>
          (s = [] \<or> sublist ''../'' s \<or> sublist [CHR ''.'', CHR ''.'', CHR 0x5C] s \<or>
           CHR 0x00 \<in> set s))))"
    unfolding validatePathname_ok_iff dotdot_slash_def dotdot_backslash_def
    by (cases v) auto
  show "(\<exists>r. validatePathname v = Inl (InvalidPathname r)) =
      (v = NonString \<or>
       (\<exists>s. v = Str s \<and>
          (s = [] \<or> sublist ''../'' s \<or> sublist [CHR ''.'', CHR ''.'', CHR 0x5C] s \<or>
           CHR 0x00 \<in> set s)))"
    using ok validatePathname_cases [of v] by auto
  show "validatePathname v = Inr () \<or> (\<exists>r. validatePathname v = Inl (InvalidPathname r))"
    by (rule validatePathname_cases)
  show "\<exists>r. validatePathname (Str ''a/../b'') = Inl (InvalidPathname r)"
    by (simp add: validatePathname_def dotdot_slash_def)
next
  assume "new_URL P ''attachments/../../etc/passwd'' = None"
  then show "\<exists>r. extractPathnameFromUrl P (Str ''attachments/../../etc/passwd'') =
             Inl (InvalidPathname r)"
    using example_not_domain_2
    by (simp add: extractPathnameFromUrl_def includes_scheme_separator_lower
        validatePathname_def dotdot_slash_def str_includes_sublist [symmetric])
next
  assume "new_URL P ''attachments/org1/file.pdf'' = None"
  then show "extractPathnameFromUrl P (Str ''attachments/org1/file.pdf'') =
        Inr ''attachments/org1/file.pdf''"
    using example_not_domain_1
    by (simp add: extractPathnameFromUrl_def includes_scheme_separator_lower
        validatePathname_def dotdot_slash_def dotdot_backslash_def null_byte_def
        startsWith_def str_includes_sublist [symmetric])
qed

text \<open>The example platform takes neither input for a URL.\<close>

theorem validatePathname_fails_iff_witness:
  "new_URL example_platform ''attachments/../../etc/passwd'' = None \<and>
   new_URL example_platform ''attachments/org1/file.pdf'' = None \<and>
   validatePathname (Str ''attachments/org1/file.pdf'') = Inr () \<and>
   (\<exists>r. extractPathnameFromUrl example_platform (Str ''attachments/../../etc/passwd'') =
             Inl (InvalidPathname r)) \<and>
   extractPathnameFromUrl example_platform (Str ''attachments/org1/file.pdf'') =
     Inr ''attachments/org1/file.pdf''"
proof -
  have a: "new_URL example_platform ''attachments/../../etc/passwd'' = None"
    by (simp add: url_eval)
  have b: "new_URL example_platform ''attachments/org1/file.pdf'' = None"
    by (simp add: url_eval)
  have c: "validatePathname (Str ''attachments/org1/file.pdf'') = Inr ()"
    by (simp add: validatePathname_def dotdot_slash_def dotdot_backslash_def null_byte_def)
  show ?thesis
    using a b c validatePathname_fails_iff [of "Str ''attachments/org1/file.pdf''" example_platform]
    by simp
qed

section \<open>extractPathnameFromUrl\<close>

lemma endsWith_suffix: "endsWith s p = suffix p s"
  by (simp add: endsWith_def suffix_to_prefix)

lemma isValidStorageHost_iff:
  "isValidStorageHost h =
     (suffix ''.vercel-storage.com'' (toLowerCase h) \<or>
      (suffix ''.amazonaws.com'' (toLowerCase h) \<and> matches s3_host_re (toLowerCase h)))"
proof -
  have "suffix ''.blob.vercel-storage.com'' s \<Longrightarrow> suffix ''.vercel-storage.com'' s" for s
    using suffix_appendD [of "''.blob''" "''.vercel-storage.com''" s] by simp
  then show ?thesis
    by (auto simp: isValidStorageHost_def Let_def endsWith_suffix)
qed

text \<open>
  C1. For an input that \<^verbatim>\<open>new URL\<close> parses (no URL is the empty string): when the host is
  not on the allow-list the call fails with the untrusted-host error; when it is, the
  call decodes the path after its first character, the leading \<^verbatim>\<open>/\<close>, checks the result
  with \<open>validatePathname\<close> and returns it, the error of the decoder or of the check being
  the error of the call. So a trusted host with the path \<^verbatim>\<open>/attachments/x.pdf\<close> gives
  \<^verbatim>\<open>attachments/x.pdf\<close>. The allow-list is the hosts that end, in lower case, with
  \<^verbatim>\<open>.vercel-storage.com\<close>, and those that end with \<^verbatim>\<open>.amazonaws.com\<close> and match the
  pattern of the regional storage hosts.
\<close>

theorem extractPathnameFromUrl_url:
  assumes "new_URL P url = Some u" and "url \<noteq> []"
  shows
  "(\<not> isValidStorageHost (url_host u) \<longrightarrow>
      extractPathnameFromUrl P (Str url) = Inl UntrustedHost) \<and>
   (isValidStorageHost (url_host u) \<longrightarrow>
      extractPathnameFromUrl P (Str url) =
        (case decodeURIComponent P (drop 1 (url_pathname u)) of
           None \<Rightarrow> Inl URIError
         | Some d \<Rightarrow> (case validatePathname (Str d) of Inl e \<Rightarrow> Inl e | Inr _ \<Rightarrow> Inr d))) \<and>
   (isValidStorageHost (url_host u) \<and> url_pathname u = ''/attachments/x.pdf'' \<and>
    decodeURIComponent P ''attachments/x.pdf'' = Some ''attachments/x.pdf'' \<longrightarrow>
      extractPathnameFromUrl P (Str url) = Inr ''attachments/x.pdf'') \<and>
   isValidStorageHost (url_host u) =
     (suffix ''.vercel-storage.com'' (toLowerCase (url_host u)) \<or>
      (suffix ''.amazonaws.com'' (toLowerCase (url_host u)) \<and>
       matches s3_host_re (toLowerCase (url_host u))))"
proof (intro conjI impI)
  show "extractPathnameFromUrl P (Str url) = Inl UntrustedHost"
    if "\<not> isValidStorageHost (url_host u)"
    using that assms by (simp add: extractPathnameFromUrl_def)
  show "extractPathnameFromUrl P (Str url) =
        (case decodeURIComponent P (drop 1 (url_pathname u)) of
           None \<Rightarrow> Inl URIError
         | Some d \<Rightarrow> (case validatePathname (Str d) of Inl e \<Rightarrow> Inl e | Inr _ \<Rightarrow> Inr d))"
    if "isValidStorageHost (url_host u)"
    using that assms by (simp add: extractPathnameFromUrl_def substring1_def)
  show "extractPathnameFromUrl P (Str url) = Inr ''attachments/x.pdf''"
    if "isValidStorageHost (url_host u) \<and> url_pathname u = ''/attachments/x.pdf'' \<and>
        decodeURIComponent P ''attachments/x.pdf'' = Some ''attachments/x.pdf''"
    using that assms
    by (simp add: extractPathnameFromUrl_def substring1_def validatePathname_def
        dotdot_slash_def dotdot_backslash_def null_byte_def)
  show "isValidStorageHost (url_host u) =
     (suffix ''.vercel-storage.com'' (toLowerCase (url_host u)) \<or>
      (suffix ''.amazonaws.com'' (toLowerCase (url_host u)) \<and>
       matches s3_host_re (toLowerCase (url_host u))))"
    by (rule isValidStorageHost_iff)
qed

lemma example_trusted_host: "isValidStorageHost ''acme.public.blob.vercel-storage.com''"
  by (simp add: isValidStorageHost_def endsWith_def toLowerCase_def lower_char_def)

lemma example_untrusted_host: "\<not> isValidStorageHost ''evil.example.com''"
  by (simp add: isValidStorageHost_def endsWith_def toLowerCase_def lower_char_def)

lemma example_trusted_url:
  "new_URL example_platform ''https://acme.public.blob.vercel-storage.com/attachments/x.pdf'' =
     Some \<lparr>url_host = ''acme.public.blob.vercel-storage.com'', url_pathname = ''/attachments/x.pdf''\<rparr>"
  by (simp add: url_eval)

lemma example_untrusted_url:
  "new_URL example_platform ''https://evil.example.com/attachments/x.pdf'' =
     Some \<lparr>url_host = ''evil.example.com'', url_pathname = ''/attachments/x.pdf''\<rparr>"
  by (simp add: url_eval)

lemma example_decode_plain:
  "decodeURIComponent example_platform ''attachments/x.pdf'' = Some ''attachments/x.pdf''"
  by (simp add: example_platform_def)

lemma example_validate: "validatePathname (Str ''attachments/x.pdf'') = Inr ()"
  by (simp add: validatePathname_def dotdot_slash_def dotdot_backslash_def null_byte_def)

theorem extractPathnameFromUrl_url_witness:
  "new_URL example_platform ''https://acme.public.blob.vercel-storage.com/attachments/x.pdf'' =
     Some \<lparr>url_host = ''acme.public.blob.vercel-storage.com'', url_pathname = ''/attachments/x.pdf''\<rparr> \<and>
   isValidStorageHost ''acme.public.blob.vercel-storage.com'' \<and>
   extractPathnameFromUrl example_platform
     (Str ''https://acme.public.blob.vercel-storage.com/attachments/x.pdf'') =
     Inr ''attachments/x.pdf'' \<and>
   new_URL example_platform ''https://evil.example.com/attachments/x.pdf'' =
     Some \<lparr>url_host = ''evil.example.com'', url_pathname = ''/attachments/x.pdf''\<rparr> \<and>
   \<not> isValidStorageHost ''evil.example.com'' \<and>
   extractPathnameFromUrl example_platform (Str ''https://evil.example.com/attachments/x.pdf'') =
     Inl UntrustedHost"
  using extractPathnameFromUrl_url [OF example_trusted_url]
    extractPathnameFromUrl_url [OF example_untrusted_url]
    example_trusted_host example_untrusted_host example_decode_plain
    example_trusted_url example_untrusted_url example_validate
  by simp

text \<open>
  C3 as stated gives the empty-pathname error for the empty input, which is no URL, has no
  \<^verbatim>\<open>://\<close> and no domain shape; the code gives the error of its first guard.
\<close>

theorem extractPathnameFromUrl_empty_counterexample:
  "new_URL example_platform [] = None \<and>
   \<not> sublist ''://'' [] \<and> \<not> domainPattern_test [] \<and>
   extractPathnameFromUrl example_platform (Str []) = Inl InvalidInput \<and>
   extractPathnameFromUrl example_platform (Str []) \<noteq> Inl EmptyPathname"
  by (simp add: extractPathnameFromUrl_def example_platform_def example_URL_def regex_eval)

text \<open>
  C3, as the code has it. The empty string fails with the error of the guard at the top of
  the function, before anything else is looked at. A non-empty input that \<^verbatim>\<open>new URL\<close>
  rejects fails with the malformed-input error when it contains \<^verbatim>\<open>://\<close>; else with the
  suspicious-pattern error when it has the shape of a domain name; else one leading
  \<^verbatim>\<open>/\<close> is dropped, an empty rest fails with the empty-pathname error, a rest that
  \<open>validatePathname\<close> refuses fails with its error, and any other rest is returned.
\<close>

theorem extractPathnameFromUrl_non_url:
  "extractPathnameFromUrl P (Str []) = Inl InvalidInput \<and>
   (url \<noteq> [] \<and> new_URL P url = None \<longrightarrow>
      extractPathnameFromUrl P (Str url) =
        (if sublist ''://'' url then Inl MalformedInput
         else if domainPattern_test url then Inl SuspiciousPattern
         else
           (let stripped = (if prefix ''/'' url then drop 1 url else url)
            in if stripped = [] then Inl EmptyPathname
               else (case validatePathname (Str stripped) of
                       Inl e \<Rightarrow> Inl e
                     | Inr _ \<Rightarrow> Inr stripped))))"
proof (intro conjI impI)
  show "extractPathnameFromUrl P (Str []) = Inl InvalidInput"
    by (simp add: extractPathnameFromUrl_def)
next
  assume a: "url \<noteq> [] \<and> new_URL P url = None"
  show "extractPathnameFromUrl P (Str url) =
        (if sublist ''://'' url then Inl MalformedInput
         else if domainPattern_test url then Inl SuspiciousPattern
         else
           (let stripped = (if prefix ''/'' url then drop 1 url else url)
            in if stripped = [] then Inl EmptyPathname
               else (case validatePathname (Str stripped) of
                       Inl e \<Rightarrow> Inl e
                     | Inr _ \<Rightarrow> Inr stripped)))"
  proof (cases "prefix ''/'' url")
    case False
    with a show ?thesis
      by (auto simp: extractPathnameFromUrl_def includes_scheme_separator_lower Let_def
          startsWith_def split: sum.splits)
  next
    case True
    then obtain t where url: "url = CHR ''/'' # t" by (cases url) auto
    show ?thesis
    proof (cases "t = []")
      case True
      with a url show ?thesis
        by (simp add: extractPathnameFromUrl_def includes_scheme_separator_lower Let_def
            startsWith_def substring1_def validatePathname_def dotdot_slash_def
            dotdot_backslash_def null_byte_def)
    next
      case False
      with a url show ?thesis
        by (auto simp: extractPathnameFromUrl_def includes_scheme_separator_lower Let_def
            startsWith_def substring1_def validatePathname_strip_slash split: sum.splits)
    qed
  qed
qed


lemma example_non_urls:
  "new_URL example_platform ''/attachments/a.pdf'' = None"
  "new_URL example_platform ''see http://nested/attachments/x'' = None"
  "new_URL example_platform ''example.com/attachments/x'' = None"
  by (simp_all add: example_platform_def example_URL_def)

lemma example_shapes:
  "\<not> domainPattern_test ''/attachments/a.pdf''"
  "domainPattern_test ''example.com/attachments/x''"
  by (simp_all add: regex_eval)

lemma example_separators:
  "\<not> sublist ''://'' ''/attachments/a.pdf''"
  "sublist ''://'' ''see http://nested/attachments/x''"
  "\<not> sublist ''://'' ''example.com/attachments/x''"
  by (simp_all add: str_includes_sublist [symmetric])

lemma example_validate_2: "validatePathname (Str ''attachments/a.pdf'') = Inr ()"
  by (simp add: validatePathname_def dotdot_slash_def dotdot_backslash_def null_byte_def)

theorem extractPathnameFromUrl_non_url_witness:
  "new_URL example_platform ''/attachments/a.pdf'' = None \<and>
   extractPathnameFromUrl example_platform (Str ''/attachments/a.pdf'') = Inr ''attachments/a.pdf'' \<and>
   new_URL example_platform ''see http://nested/attachments/x'' = None \<and>
   extractPathnameFromUrl example_platform (Str ''see http://nested/attachments/x'') =
     Inl MalformedInput \<and>
   new_URL example_platform ''example.com/attachments/x'' = None \<and>
   extractPathnameFromUrl example_platform (Str ''example.com/attachments/x'') =
     Inl SuspiciousPattern"
  using extractPathnameFromUrl_non_url [of example_platform "''/attachments/a.pdf''"]
    extractPathnameFromUrl_non_url [of example_platform "''see http://nested/attachments/x''"]
    extractPathnameFromUrl_non_url [of example_platform "''example.com/attachments/x''"]
    example_non_urls example_shapes example_separators example_validate_2
  by simp

section \<open>buildPathname\<close>

lemma bucket_string_no_slash: "CHR ''/'' \<notin> set (bucket_string bucket)"
  by (cases bucket) simp_all

text \<open>
  C6 as stated promises exactly one \<^verbatim>\<open>/\<close> between prefix and key for every key; a key
  that begins with two keeps its second.
\<close>

theorem buildPathname_double_slash_counterexample:
  "buildPathname org_assets ''//acme/logo.png'' = ''org-assets//acme/logo.png''"
  by (simp add: buildPathname_def getBucketPrefix_def startsWith_def substring1_def)

text \<open>
  C6, as the code has it. \<open>buildPathname\<close> returns the bucket's name, one \<^verbatim>\<open>/\<close>, and the key
  without one leading \<^verbatim>\<open>/\<close>; bucket names hold no \<^verbatim>\<open>/\<close>. When the key does not begin
  with \<^verbatim>\<open>//\<close>, what follows that \<^verbatim>\<open>/\<close> does not begin with another, so exactly one
  separates the two. \<^verbatim>\<open>buildPathname("org-assets", "/acme/logo.png")\<close> is
  \<^verbatim>\<open>org-assets/acme/logo.png\<close>.
\<close>

theorem buildPathname_one_separator:
  "buildPathname bucket key =
     bucket_string bucket @ ''/'' @ (if prefix ''/'' key then drop 1 key else key) \<and>
   getBucketPrefix bucket = bucket_string bucket @ ''/'' \<and>
   CHR ''/'' \<notin> set (bucket_string bucket) \<and>
   (\<not> prefix ''//'' key \<longrightarrow> \<not> prefix ''/'' (if prefix ''/'' key then drop 1 key else key)) \<and>
   buildPathname org_assets ''/acme/logo.png'' = ''org-assets/acme/logo.png''"
proof (intro conjI impI)
  show "buildPathname bucket key =
     bucket_string bucket @ ''/'' @ (if prefix ''/'' key then drop 1 key else key)"
    by (simp add: buildPathname_def getBucketPrefix_def startsWith_def substring1_def)
  show "getBucketPrefix bucket = bucket_string bucket @ ''/''"
    by (simp add: getBucketPrefix_def)
  show "CHR ''/'' \<notin> set (bucket_string bucket)"
    by (rule bucket_string_no_slash)
  show "buildPathname org_assets ''/acme/logo.png'' = ''org-assets/acme/logo.png''"
    by (simp add: buildPathname_def getBucketPrefix_def startsWith_def substring1_def)
next
  assume "\<not> prefix ''//'' key"
  then show "\<not> prefix ''/'' (if prefix ''/'' key then drop 1 key else key)"
    by (cases key) auto
qed

theorem buildPathname_one_separator_witness:
  "\<not> prefix ''//'' ''/acme/logo.png'' \<and>
   buildPathname org_assets ''/acme/logo.png'' = ''org-assets'' @ ''/'' @ ''acme/logo.png'' \<and>
   \<not> prefix ''/'' ''acme/logo.png''"
  using buildPathname_one_separator [of org_assets "''/acme/logo.png''"]
  by simp

section \<open>Base64\<close>

lemma of_char_b64_char:
  assumes "n < 64"
  shows "(of_char (b64_char n) :: nat) = b64_code n"
proof -
  have "(65 + n) mod 256 = 65 + n" "(71 + n) mod 256 = 71 + n" "(n - 4) mod 256 = n - 4"
    using assms by simp_all
  then show ?thesis
    by (simp add: b64_char_def b64_code_def)
qed

lemma char_eq_code: "(c = d) = ((of_char c :: nat) = of_char d)"
  by simp

lemma char_of_eq: "(char_of (n :: nat) = c) = (n mod 256 = of_char c)"
  unfolding char_eq_code [of "char_of n"] by simp

lemma unbase64_b64_char:
  assumes "n < 64"
  shows "unbase64 (b64_char n) = Some n"
proof -
  have "unbase64 (b64_char n) =
     (let m = b64_code n
      in if 65 \<le> m \<and> m \<le> 90 then Some (m - 65)
         else if 97 \<le> m \<and> m \<le> 122 then Some (m - 71)
         else if 48 \<le> m \<and> m \<le> 57 then Some (m + 4)
         else if m = 43 \<or> m = 45 then Some 62
         else if m = 47 \<or> m = 95 then Some 63
         else None)"
    unfolding unbase64_def char_eq_code [of "b64_char n"] of_char_b64_char [OF assms]
    by (simp add: Let_def)
  also have "\<dots> = Some n"
    using assms unfolding b64_code_def Let_def by auto
  finally show ?thesis .
qed

lemma b64_char_not_pad: "n < 64 \<Longrightarrow> b64_char n \<noteq> CHR ''=''"
  unfolding char_eq_code [of "b64_char n"] of_char_b64_char
  by (auto simp: b64_code_def)

lemma b64_char_not_comma: "n < 64 \<Longrightarrow> b64_char n \<noteq> CHR '',''"
  unfolding char_eq_code [of "b64_char n"] of_char_b64_char
  by (auto simp: b64_code_def)


lemma unat_byte_less: "unat (a :: byte) < 256"
  using unsigned_less [of a, where ?'a = nat] by simp

lemma sextet_bounds:
  assumes "x < 256" "y < 256" "z < 256"
  shows "x div 4 < (64::nat)" "(x mod 4) * 16 + y div 16 < (64::nat)"
    "(y mod 16) * 4 + z div 64 < (64::nat)" "z mod 64 < (64::nat)"
    "(x mod 4) * 16 < (64::nat)" "(y mod 16) * 4 < (64::nat)"
  using assms by arith+

lemma split_div: "k < b \<Longrightarrow> (a * b + k) div b = (a::nat)" by simp
lemma split_mod: "k < b \<Longrightarrow> (a * b + k) mod b = (k::nat)" by simp
lemma d16: "y < 256 \<Longrightarrow> y div 16 < (16::nat)" by (rule less_mult_imp_div_less) simp
lemma d64: "z < 256 \<Longrightarrow> z div 64 < (4::nat)" by (rule less_mult_imp_div_less) simp

lemma regroup_first:
  assumes "y < (256::nat)"
  shows "(x div 4) * 4 + ((x mod 4) * 16 + y div 16) div 16 = x"
  by (simp only: split_div [OF d16 [OF assms]] div_mult_mod_eq)

lemma regroup_first_padded: "(x div 4) * 4 + ((x mod 4) * 16) div 16 = (x::nat)"
  by simp

lemma regroup_second:
  assumes "y < (256::nat)" "z < (256::nat)"
  shows "(((x mod 4) * 16 + y div 16) mod 16) * 16 + ((y mod 16) * 4 + z div 64) div 4 = y"
  by (simp only: split_mod [OF d16 [OF assms(1)]] split_div [OF d64 [OF assms(2)]] div_mult_mod_eq)

lemma regroup_second_padded:
  assumes "y < (256::nat)"
  shows "(((x mod 4) * 16 + y div 16) mod 16) * 16 + ((y mod 16) * 4) div 4 = y"
  using split_mod [OF d16 [OF assms], of "x mod 4"] by simp

lemma regroup_third:
  assumes "z < (256::nat)"
  shows "(((y mod 16) * 4 + z div 64) mod 4) * 64 + z mod 64 = z"
  by (simp only: split_mod [OF d64 [OF assms]] div_mult_mod_eq)

lemma from_base64_quad:
  assumes "p < 64" "q < 64" "r < 64" "s < 64"
  shows "from_base64 (b64_char p # b64_char q # b64_char r # b64_char s # rest) =
     [of_nat (p * 4 + q div 16), of_nat ((q mod 16) * 16 + r div 4), of_nat ((r mod 4) * 64 + s)]
     @ from_base64 rest"
  using assms
  by (simp add: from_base64_def b64_char_not_pad unbase64_b64_char)

lemma from_base64_pad1:
  assumes "p < 64" "q < 64" "r < 64"
  shows "from_base64 [b64_char p, b64_char q, b64_char r, CHR ''=''] =
     [of_nat (p * 4 + q div 16), of_nat ((q mod 16) * 16 + r div 4)]"
  using assms
  by (simp add: from_base64_def b64_char_not_pad unbase64_b64_char)

lemma from_base64_pad2:
  assumes "p < 64" "q < 64"
  shows "from_base64 [b64_char p, b64_char q, CHR ''='', CHR ''=''] = [of_nat (p * 4 + q div 16)]"
  using assms
  by (simp add: from_base64_def b64_char_not_pad unbase64_b64_char)

lemma base64_round_trip: "from_base64 (toString_base64 b) = b"
proof (induction b rule: toString_base64.induct)
  case 1
  show ?case by (simp add: from_base64_def)
next
  case (2 a)
  define p q where "p = unat a div 4" and "q = (unat a mod 4) * 16"
  have bounds: "p < 64" "q < 64"
    unfolding p_def q_def
    using sextet_bounds [OF unat_byte_less [of a] unat_byte_less [of a] unat_byte_less [of a]]
    by simp_all
  have "toString_base64 [a] = [b64_char p, b64_char q, CHR ''='', CHR ''='']"
    by (simp add: p_def q_def Let_def)
  then have "from_base64 (toString_base64 [a]) = [of_nat (p * 4 + q div 16)]"
    using from_base64_pad2 [OF bounds] by simp
  moreover have "p * 4 + q div 16 = unat a"
    unfolding p_def q_def by (rule regroup_first_padded)
  ultimately show ?case by simp
next
  case (3 a b)
  define p q r where "p = unat a div 4" and "q = (unat a mod 4) * 16 + unat b div 16"
    and "r = (unat b mod 16) * 4"
  have bounds: "p < 64" "q < 64" "r < 64"
    unfolding p_def q_def r_def
    using sextet_bounds [OF unat_byte_less [of a] unat_byte_less [of b] unat_byte_less [of b]]
    by simp_all
  have "toString_base64 [a, b] = [b64_char p, b64_char q, b64_char r, CHR ''='']"
    by (simp add: p_def q_def r_def Let_def)
  then have "from_base64 (toString_base64 [a, b]) =
      [of_nat (p * 4 + q div 16), of_nat ((q mod 16) * 16 + r div 4)]"
    using from_base64_pad1 [OF bounds] by simp
  moreover have "p * 4 + q div 16 = unat a"
    unfolding p_def q_def by (rule regroup_first) (rule unat_byte_less)
  moreover have "(q mod 16) * 16 + r div 4 = unat b"
    unfolding q_def r_def by (rule regroup_second_padded) (rule unat_byte_less)
  ultimately show ?case by simp
next
  case (4 a b c rest)
  define p q r s where "p = unat a div 4" and "q = (unat a mod 4) * 16 + unat b div 16"
    and "r = (unat b mod 16) * 4 + unat c div 64" and "s = unat c mod 64"
  have bounds: "p < 64" "q < 64" "r < 64" "s < 64"
    unfolding p_def q_def r_def s_def
    using sextet_bounds [OF unat_byte_less [of a] unat_byte_less [of b] unat_byte_less [of c]]
    by simp_all
  have "toString_base64 (a # b # c # rest) =
      b64_char p # b64_char q # b64_char r # b64_char s # toString_base64 rest"
    by (simp add: p_def q_def r_def s_def Let_def)
  then have "from_base64 (toString_base64 (a # b # c # rest)) =
      [of_nat (p * 4 + q div 16), of_nat ((q mod 16) * 16 + r div 4), of_nat ((r mod 4) * 64 + s)]
      @ from_base64 (toString_base64 rest)"
    using from_base64_quad [OF bounds] by simp
  moreover have "p * 4 + q div 16 = unat a"
    unfolding p_def q_def by (rule regroup_first) (rule unat_byte_less)
  moreover have "(q mod 16) * 16 + r div 4 = unat b"
    unfolding q_def r_def by (rule regroup_second) (rule unat_byte_less)+
  moreover have "(r mod 4) * 64 + s = unat c"
    unfolding r_def s_def by (rule regroup_third) (rule unat_byte_less)
  ultimately show ?case using 4 by simp
qed

lemma toString_base64_no_comma: "CHR '','' \<notin> set (toString_base64 b)"
proof (induction b rule: toString_base64.induct)
  case 1
  show ?case by simp
next
  case (2 a)
  show ?case
    using sextet_bounds [OF unat_byte_less [of a] unat_byte_less [of a] unat_byte_less [of a]]
    by (simp add: Let_def b64_char_not_comma [symmetric])
next
  case (3 a b)
  show ?case
    using sextet_bounds [OF unat_byte_less [of a] unat_byte_less [of b] unat_byte_less [of b]]
    by (simp add: Let_def b64_char_not_comma [symmetric])
next
  case (4 a b c rest)
  then show ?case
    using sextet_bounds [OF unat_byte_less [of a] unat_byte_less [of b] unat_byte_less [of c]]
    by (simp add: Let_def b64_char_not_comma [symmetric])
qed


lemma str_includes_single: "str_includes s [c] = (c \<in> set s)"
  by (induction s) auto

lemma split_no_separator: "sep \<notin> set s \<Longrightarrow> split sep s = [s]"
  by (induction s) auto

lemma split_at_first: "sep \<notin> set a \<Longrightarrow> split sep (a @ sep # b) = a # split sep b"
  by (induction a) auto

lemma base64ToBuffer_plain:
  assumes "CHR '','' \<notin> set s"
  shows "base64ToBuffer s = from_base64 s"
  using assms by (simp add: base64ToBuffer_def str_includes_single)

lemma base64ToBuffer_data_url:
  assumes "CHR '','' \<notin> set mime" "CHR '','' \<notin> set payload"
  shows "base64ToBuffer (''data:'' @ mime @ '';base64,'' @ payload) = from_base64 payload"
proof -
  let ?pre = "''data:'' @ mime @ '';base64''"
  have pre: "CHR '','' \<notin> set ?pre" using assms by simp
  have eq: "''data:'' @ mime @ '';base64,'' @ payload = ?pre @ CHR '','' # payload" by simp
  have "split (CHR '','') (?pre @ CHR '','' # payload) = [?pre, payload]"
    using split_at_first [OF pre] split_no_separator [OF assms(2)] by simp
  moreover have "str_includes (?pre @ CHR '','' # payload) '',''"
    by (simp add: str_includes_single)
  ultimately show ?thesis
    unfolding eq base64ToBuffer_def by simp
qed

text \<open>
  C7. Decoding the encoding of a buffer gives the buffer back. A data URL
  \<^verbatim>\<open>data:<mime>;base64,<payload>\<close>, with no comma in the media type or in the payload (a
  base64 payload has none), decodes to what the bare payload decodes to; so the data URL
  of a buffer's encoding decodes to the buffer.
\<close>

theorem base64_round_trip_and_data_url:
  "base64ToBuffer (bufferToBase64 b) = b \<and>
   (CHR '','' \<notin> set mime \<and> CHR '','' \<notin> set payload \<longrightarrow>
      base64ToBuffer (''data:'' @ mime @ '';base64,'' @ payload) = base64ToBuffer payload) \<and>
   (CHR '','' \<notin> set mime \<longrightarrow>
      base64ToBuffer (''data:'' @ mime @ '';base64,'' @ bufferToBase64 b) = b)"
  using base64ToBuffer_data_url [of mime payload]
    base64ToBuffer_data_url [of mime "toString_base64 b"]
    base64ToBuffer_plain [of payload] base64ToBuffer_plain [of "toString_base64 b"]
  by (simp add: bufferToBase64_def base64_round_trip toString_base64_no_comma)

theorem base64_round_trip_and_data_url_witness:
  "CHR '','' \<notin> set ''image/png'' \<and> CHR '','' \<notin> set ''TWFu'' \<and>
   bufferToBase64 [0x4d, 0x61, 0x6e] = ''TWFu'' \<and>
   base64ToBuffer ''TWFu'' = [0x4d, 0x61, 0x6e] \<and>
   base64ToBuffer ''data:image/png;base64,TWFu'' = [0x4d, 0x61, 0x6e]"
proof -
  have enc: "bufferToBase64 [0x4d, 0x61, 0x6e] = ''TWFu''"
    by (simp add: bufferToBase64_def b64_char_def char_of_eq)
  show ?thesis
    using base64_round_trip_and_data_url [of "[0x4d, 0x61, 0x6e]" "''image/png''" "''TWFu''"]
    unfolding enc by simp
qed

section \<open>The provider\<close>

lemma await_return: "await m (\<lambda>x. return (f x)) w = (map_sum id f (fst (m w)), snd (m w))"
  by (cases "m w"; cases "fst (m w)") (auto simp: await_def return_def)

lemma await_unit: "await m return = m"
proof
  fix w
  show "await m return w = m w"
    by (cases "m w"; cases "fst (m w)") (auto simp: await_def return_def)
qed

lemma resolveUrl_id: "resolveUrl pathname = pathname"
  by (simp add: resolveUrl_def)

lemma head_total: "\<exists>r. fst (head B this p w) = Inr r"
  by (simp add: head_def Let_def split: prod.splits sum.splits option.splits)

lemma head_null:
  assumes "(\<exists>e. fst (sdk_head B (resolveUrl p) (token this) w) = Inl e) \<or>
           fst (sdk_head B (resolveUrl p) (token this) w) = Inr None"
  shows "fst (head B this p w) = Inr None"
  using assms
  by (auto simp: head_def Let_def split: prod.splits sum.splits option.splits)

lemma exists_head:
  "fst (exists B this p w) = Inr (fst (head B this p w) \<noteq> Inr None) \<and>
   snd (exists B this p w) = snd (head B this p w)"
  using head_total [of B this p w]
  by (auto simp: exists_def await_return)

text \<open>
  C8. On every backend and in every state \<open>head\<close> returns, never throws; \<open>exists\<close> returns,
  never throws, leaves the state \<open>head\<close> leaves, and is false exactly when \<open>head\<close> gives
  null. When the SDK's \<^verbatim>\<open>head\<close> throws, as it does for a missing object, or gives null,
  \<open>head\<close> gives null and \<open>exists\<close> false.
\<close>

theorem head_and_exists_never_fail:
  "(\<exists>r. fst (head B this p w) = Inr r) \<and>
   (\<exists>b. fst (exists B this p w) = Inr b) \<and>
   fst (exists B this p w) = Inr (fst (head B this p w) \<noteq> Inr None) \<and>
   snd (exists B this p w) = snd (head B this p w) \<and>
   ((\<exists>e. fst (sdk_head B (resolveUrl p) (token this) w) = Inl e) \<or>
    fst (sdk_head B (resolveUrl p) (token this) w) = Inr None \<longrightarrow>
      fst (head B this p w) = Inr None \<and> fst (exists B this p w) = Inr False)"
  using head_total [of B this p w] exists_head [of B this p w] head_null [of B p this w]
  by auto

theorem head_and_exists_never_fail_witness:
  "fst (sdk_head store_sdk (resolveUrl ''attachments/missing.pdf'') (token \<lparr>token = ''t''\<rparr>)
         \<lparr>objects = [], refused = []\<rparr>) = Inl (BackendError ''BlobNotFoundError'') \<and>
   fst (head store_sdk \<lparr>token = ''t''\<rparr> ''attachments/missing.pdf''
         \<lparr>objects = [], refused = []\<rparr>) = Inr None \<and>
   fst (exists store_sdk \<lparr>token = ''t''\<rparr> ''attachments/missing.pdf''
         \<lparr>objects = [], refused = []\<rparr>) = Inr False"
proof -
  have "fst (sdk_head store_sdk (resolveUrl ''attachments/missing.pdf'') (token \<lparr>token = ''t''\<rparr>)
         \<lparr>objects = [], refused = []\<rparr>) = Inl (BackendError ''BlobNotFoundError'')"
    by (simp add: store_sdk_def store_head_def)
  then show ?thesis
    using head_and_exists_never_fail [of store_sdk "\<lparr>token = ''t''\<rparr>" "''attachments/missing.pdf''"
        "\<lparr>objects = [], refused = []\<rparr>"]
    by simp
qed

section \<open>The calls that reach the backend\<close>

lemma logged_apply: "logged c m (w, l) = (fst (m w), snd (m w), l @ [c])"
  by (simp add: logged_def split: prod.splits)

lemma traced_sel:
  "sdk_put (traced B) pathname data opts = logged (PutCall pathname data opts) (sdk_put B pathname data opts)"
  "sdk_del (traced B) target tok = logged (DelCall target tok) (sdk_del B target tok)"
  "sdk_head (traced B) url tok = logged (HeadCall url tok) (sdk_head B url tok)"
  "sdk_list (traced B) lopts = logged (ListCall lopts) (sdk_list B lopts)"
  "sdk_fetch (traced B) url headers = logged (FetchCall url headers) (sdk_fetch B url headers)"
  by (simp_all add: traced_def)

lemma download_traced:
  "download (traced B) this p (w, l) =
     (fst (download B this p w), snd (download B this p w),
      l @ [FetchCall p (auth_headers this)])"
  by (simp add: download_def resolveUrl_id traced_sel logged_apply await_def throw_def return_def
      split: prod.splits sum.splits)

lemma downloadStream_traced:
  "downloadStream (traced B) this p (w, l) =
     (fst (downloadStream B this p w), snd (downloadStream B this p w),
      l @ [FetchCall p (auth_headers this)])"
  by (simp add: downloadStream_def resolveUrl_id traced_sel logged_apply await_def throw_def
      return_def split: prod.splits sum.splits option.splits)

lemma head_traced:
  "head (traced B) this p (w, l) =
     (fst (head B this p w), snd (head B this p w), l @ [HeadCall p (token this)])"
  by (simp add: head_def resolveUrl_id traced_sel logged_apply
      split: prod.splits sum.splits option.splits)

lemma delete_traced:
  "delete (traced B) this p (w, l) =
     (fst (delete B this p w), snd (delete B this p w), l @ [DelCall (Single p) (token this)])"
  by (simp add: delete_def resolveUrl_id traced_sel logged_apply await_unit)

lemma map_resolveUrl: "map resolveUrl ps = ps"
  by (induction ps) (simp_all add: resolveUrl_id)

lemma deleteMany_eq:
  "deleteMany B this ps =
     (if ps = [] then return () else sdk_del B (Multiple ps) (token this))"
  by (simp add: deleteMany_def map_resolveUrl await_unit)

lemma deleteMany_traced:
  "deleteMany (traced B) this ps (w, l) =
     (fst (deleteMany B this ps w), snd (deleteMany B this ps w),
      l @ (if ps = [] then [] else [DelCall (Multiple ps) (token this)]))"
  by (simp add: deleteMany_eq traced_sel logged_apply return_def)


text \<open>
  C10. For a string that begins with \<^verbatim>\<open>http://\<close> or \<^verbatim>\<open>https://\<close>, \<open>resolveUrl\<close> is the
  identity, and on every backend the one call that \<open>download\<close>, \<open>downloadStream\<close>,
  \<open>delete\<close>, \<open>deleteMany\<close> and \<open>head\<close> make carries that string as its URL, whatever its
  host: the provider checks no allow-list.
\<close>

theorem provider_uses_url_verbatim:
  assumes "prefix ''http://'' p \<or> prefix ''https://'' p"
  shows
  "resolveUrl p = p \<and>
   calls_of (download (traced B) this p) w = [FetchCall p (auth_headers this)] \<and>
   calls_of (downloadStream (traced B) this p) w = [FetchCall p (auth_headers this)] \<and>
   calls_of (delete (traced B) this p) w = [DelCall (Single p) (token this)] \<and>
   calls_of (deleteMany (traced B) this (p # ps)) w =
     [DelCall (Multiple (p # map resolveUrl ps)) (token this)] \<and>
   calls_of (head (traced B) this p) w = [HeadCall p (token this)]"
  by (simp add: calls_of_def resolveUrl_id download_traced downloadStream_traced delete_traced
      deleteMany_traced head_traced map_resolveUrl)

theorem provider_uses_url_verbatim_witness:
  "prefix ''https://'' ''https://evil.example.com/x'' \<and>
   \<not> isValidStorageHost ''evil.example.com'' \<and>
   calls_of (download (traced store_sdk) \<lparr>token = ''t''\<rparr> ''https://evil.example.com/x'')
     \<lparr>objects = [], refused = []\<rparr> =
     [FetchCall ''https://evil.example.com/x'' [(''Authorization'', ''Bearer t'')]] \<and>
   calls_of (delete (traced store_sdk) \<lparr>token = ''t''\<rparr> ''https://evil.example.com/x'')
     \<lparr>objects = [], refused = []\<rparr> =
     [DelCall (Single ''https://evil.example.com/x'') ''t'']"
  using provider_uses_url_verbatim [of "''https://evil.example.com/x''" store_sdk
      "\<lparr>token = ''t''\<rparr>" "\<lparr>objects = [], refused = []\<rparr>" "[]"]
    example_untrusted_host
  by (simp add: auth_headers_def)

section \<open>copy\<close>






lemma store_download_absent:
  assumes "map_of (objects s) u = None"
  shows "download store_sdk this u s = (Inl (DownloadFailed u 404 ''Not Found''), s)"
  using assms
  by (simp add: download_def resolveUrl_id store_sdk_def store_fetch_def await_def throw_def)









section \<open>deleteMany\<close>

text \<open>
  C5 as stated: an error for one pathname leaves the others deleted. On a backend that
  rejects a request naming a refused URL, \<open>deleteMany\<close> of three URLs, the second refused,
  fails and all three objects are still there.
\<close>

theorem deleteMany_batch_rejected_counterexample:
  "deleteMany store_sdk \<lparr>token = ''t''\<rparr> [''https://s/p1'', ''https://s/p2'', ''https://s/p3'']
     \<lparr>objects = [(''https://s/p1'', \<lparr>st_bytes = [1], st_contentType = ''text/plain''\<rparr>),
                 (''https://s/p2'', \<lparr>st_bytes = [2], st_contentType = ''text/plain''\<rparr>),
                 (''https://s/p3'', \<lparr>st_bytes = [3], st_contentType = ''text/plain''\<rparr>)],
      refused = [''https://s/p2'']\<rparr> =
     (Inl (BackendError ''delete refused''),
      \<lparr>objects = [(''https://s/p1'', \<lparr>st_bytes = [1], st_contentType = ''text/plain''\<rparr>),
                  (''https://s/p2'', \<lparr>st_bytes = [2], st_contentType = ''text/plain''\<rparr>),
                  (''https://s/p3'', \<lparr>st_bytes = [3], st_contentType = ''text/plain''\<rparr>)],
       refused = [''https://s/p2'']\<rparr>)"
  by (simp add: deleteMany_eq store_sdk_def store_del_def)

text \<open>
  C5, as the code has it. \<open>deleteMany\<close> makes no call for the empty list and otherwise
  one call of the SDK's \<^verbatim>\<open>del\<close> with the whole list; what that call returns and does to
  the store is what \<open>deleteMany\<close> returns and does.
\<close>

theorem deleteMany_single_batch:
  "deleteMany B this ps w =
     (if ps = [] then (Inr (), w) else sdk_del B (Multiple ps) (token this) w) \<and>
   calls_of (deleteMany (traced B) this ps) w =
     (if ps = [] then [] else [DelCall (Multiple ps) (token this)])"
proof
  show "deleteMany B this ps w =
     (if ps = [] then (Inr (), w) else sdk_del B (Multiple ps) (token this) w)"
    by (simp add: deleteMany_eq return_def)
  show "calls_of (deleteMany (traced B) this ps) w =
     (if ps = [] then [] else [DelCall (Multiple ps) (token this)])"
    by (simp add: deleteMany_traced calls_of_def)
qed

section \<open>The handle\<close>

lemma getStorage_cached:
  assumes "storageInstance p = Some i"
  shows "getStorage p = (i, p)"
  using assms by (simp add: getStorage_def)

lemma getStorage_first:
  assumes "storageInstance p = None"
  shows "getStorage p =
     (fst (new_VercelBlobProvider None (env_BLOB_READ_WRITE_TOKEN p)),
      p\<lparr>storageInstance := Some (fst (new_VercelBlobProvider None (env_BLOB_READ_WRITE_TOKEN p))),
        console := console p @ snd (new_VercelBlobProvider None (env_BLOB_READ_WRITE_TOKEN p)),
        constructions := Suc (constructions p)\<rparr>)"
  using assms by (simp add: getStorage_def split: prod.splits)

lemma run_storage_cached:
  assumes "storageInstance p = Some i"
  shows "run_storage P B reqs (p, w) =
     (fst (run_provider P B i reqs w), p, snd (run_provider P B i reqs w))"
proof (induction reqs arbitrary: w)
  case Nil
  show ?case by simp
next
  case (Cons req reqs)
  show ?case
    by (simp add: storage_def getStorage_cached [OF assms] Cons split: prod.splits)
qed

text \<open>
  C9. A call on the handle is the same call on the instance \<open>getStorage\<close> gives, and
  after it \<open>getStorage\<close> gives that instance again without constructing. From start-up,
  a run of calls on the handle gives the replies and leaves the backend as the same run
  on a provider constructed from the environment does, and the constructor has run once,
  or not at all when there was no call.
\<close>

theorem storage_forwards_to_one_provider:
  "storage P B req (p, w) =
     (fst (invoke P B (fst (getStorage p)) req w), snd (getStorage p),
      snd (invoke P B (fst (getStorage p)) req w)) \<and>
   storageInstance (snd (getStorage p)) = Some (fst (getStorage p)) \<and>
   getStorage (snd (getStorage p)) = (fst (getStorage p), snd (getStorage p)) \<and>
   run_storage P B reqs (initial_process env, w) =
     (fst (run_provider P B (fst (new_VercelBlobProvider None env)) reqs w),
      (if reqs = [] then initial_process env
       else \<lparr>storageInstance = Some (fst (new_VercelBlobProvider None env)),
             env_BLOB_READ_WRITE_TOKEN = env,
             console = snd (new_VercelBlobProvider None env),
             constructions = 1\<rparr>),
      snd (run_provider P B (fst (new_VercelBlobProvider None env)) reqs w))"
proof (intro conjI)
  show "storage P B req (p, w) =
     (fst (invoke P B (fst (getStorage p)) req w), snd (getStorage p),
      snd (invoke P B (fst (getStorage p)) req w))"
    by (simp add: storage_def split: prod.splits)
  show inst: "storageInstance (snd (getStorage p)) = Some (fst (getStorage p))"
    by (cases "storageInstance p") (simp_all add: getStorage_cached getStorage_first)
  show "getStorage (snd (getStorage p)) = (fst (getStorage p), snd (getStorage p))"
    by (rule getStorage_cached [OF inst])
  show "run_storage P B reqs (initial_process env, w) =
     (fst (run_provider P B (fst (new_VercelBlobProvider None env)) reqs w),
      (if reqs = [] then initial_process env
       else \<lparr>storageInstance = Some (fst (new_VercelBlobProvider None env)),
             env_BLOB_READ_WRITE_TOKEN = env,
             console = snd (new_VercelBlobProvider None env),
             constructions = 1\<rparr>),
      snd (run_provider P B (fst (new_VercelBlobProvider None env)) reqs w))"
  proof (cases reqs)
    case Nil
    then show ?thesis by simp
  next
    case (Cons r rs)
    let ?i = "fst (new_VercelBlobProvider None env)"
    let ?p = "\<lparr>storageInstance = Some ?i,
             env_BLOB_READ_WRITE_TOKEN = env,
             console = snd (new_VercelBlobProvider None env),
             constructions = Suc 0\<rparr>"
    have g: "getStorage (initial_process env) = (?i, ?p)"
      by (simp add: getStorage_first initial_process_def)
    have c: "storageInstance ?p = Some ?i" by simp
    show ?thesis
      unfolding Cons
      by (simp add: storage_def g run_storage_cached [OF c] split: prod.splits)
  qed
qed

end
